theory Spec2Isabelle
  imports Main "HOL-Library.Product_Lexorder" "HOL-Library.Sublist"
begin

section \<open>JavaScript values\<close>

text \<open>
  The gateway is TypeScript running on Node. Its handlers receive and return plain
  JavaScript values: request bodies, validated parameter objects, rows of the record
  store, cached payloads, metadata objects. They are modelled by one datatype.
  \<open>JUndefined\<close> is JavaScript's \<open>undefined\<close> (an absent property reads as
  \<open>undefined\<close>). Numbers are modelled as integers: prices are counted in cents, limits
  and counts are integers; fractional numbers, \<open>NaN\<close> and the infinities are outside the
  model. An object is the list of its properties in insertion order.
\<close>

datatype jsval =
    JUndefined
  | JNull
  | JBool bool
  | JNum int
  | JStr string
  | JArr "jsval list"
  | JObj "(string \<times> jsval) list"

type_synonym obj = "(string \<times> jsval) list"

text \<open>Property access \<open>o.k\<close> on an object: \<open>undefined\<close> when the property is absent.\<close>

definition getp :: "obj \<Rightarrow> string \<Rightarrow> jsval" where
  "getp ob k = (case map_of ob k of None \<Rightarrow> JUndefined | Some v \<Rightarrow> v)"

text \<open>
  Truthiness, as \<open>if (v)\<close>, \<open>!v\<close> and \<open>a || b\<close> test it: \<open>undefined\<close>, \<open>null\<close>,
  \<open>false\<close>, \<open>0\<close> and the empty string are falsy, every array and object is truthy.
\<close>

fun truthy :: "jsval \<Rightarrow> bool" where
  "truthy JUndefined = False"
| "truthy JNull = False"
| "truthy (JBool b) = b"
| "truthy (JNum n) = (n \<noteq> 0)"
| "truthy (JStr s) = (s \<noteq> [])"
| "truthy (JArr xs) = True"
| "truthy (JObj kvs) = True"

text \<open>\<open>a || b\<close>\<close>

definition js_or :: "jsval \<Rightarrow> jsval \<Rightarrow> jsval" where
  "js_or a b = (if truthy a then a else b)"

text \<open>
  \<open>data?.length\<close>: \<open>undefined\<close> for \<open>null\<close> and \<open>undefined\<close>, the number of elements of
  an array, the length of a string, the property \<open>length\<close> of an object.
\<close>

fun opt_length :: "jsval \<Rightarrow> jsval" where
  "opt_length (JArr xs) = JNum (int (length xs))"
| "opt_length (JStr s) = JNum (int (length s))"
| "opt_length (JObj kvs) = getp kvs ''length''"
| "opt_length v = JUndefined"

subsection \<open>Rendering values as text\<close>

fun show_nat :: "nat \<Rightarrow> string" where
  "show_nat n =
     (if n < 10 then [''0123456789'' ! n]
      else show_nat (n div 10) @ [''0123456789'' ! (n mod 10)])"

definition show_int :: "int \<Rightarrow> string" where
  "show_int i = (if i < 0 then CHR ''-'' # show_nat (nat (- i)) else show_nat (nat i))"

text \<open>Joining strings with a separator, as \<open>Array.prototype.join\<close> does.\<close>

fun join :: "string \<Rightarrow> string list \<Rightarrow> string" where
  "join sep [] = []"
| "join sep [x] = x"
| "join sep (x # y # ys) = x @ sep @ join sep (y # ys)"

text \<open>
  \<open>String(v)\<close>, which a template literal \<open>`...${v}...`\<close> applies to \<open>v\<close>. An array is
  the comma-joined text of its elements, with \<open>null\<close> and \<open>undefined\<close> elements empty.
\<close>

fun to_String :: "jsval \<Rightarrow> string"
  and elem_String :: "jsval \<Rightarrow> string"
  and elems_String :: "jsval list \<Rightarrow> string list" where
  "to_String JUndefined = ''undefined''"
| "to_String JNull = ''null''"
| "to_String (JBool b) = (if b then ''true'' else ''false'')"
| "to_String (JNum n) = show_int n"
| "to_String (JStr s) = s"
| "to_String (JArr xs) = join '','' (elems_String xs)"
| "to_String (JObj kvs) = ''[object Object]''"
| "elem_String v = (if v = JNull \<or> v = JUndefined then [] else to_String v)"
| "elems_String [] = []"
| "elems_String (x # xs) = elem_String x # elems_String xs"

text \<open>
  \<open>JSON.stringify(v)\<close> without indentation. A string is quoted, with the quote, the
  backslash and the control characters escaped. A property whose value is \<open>undefined\<close> is
  left out of an object; an \<open>undefined\<close> array element is written \<open>null\<close>. The
  gateway applies it to parameter objects only, never to \<open>undefined\<close> itself.
\<close>

definition hex_digit :: "nat \<Rightarrow> char" where
  "hex_digit n = ''0123456789abcdef'' ! (n mod 16)"

definition escape_char :: "char \<Rightarrow> string" where
  "escape_char c =
     (if c = CHR 0x22 then [CHR 0x5C, CHR 0x22]
      else if c = CHR 0x5C then [CHR 0x5C, CHR 0x5C]
      else if c = CHR 0x08 then [CHR 0x5C, CHR ''b'']
      else if c = CHR 0x0C then [CHR 0x5C, CHR ''f'']
      else if c = CHR 0x0A then [CHR 0x5C, CHR ''n'']
      else if c = CHR 0x0D then [CHR 0x5C, CHR ''r'']
      else if c = CHR 0x09 then [CHR 0x5C, CHR ''t'']
      else if (of_char c :: nat) < 32
        then [CHR 0x5C, CHR ''u'', CHR ''0'', CHR ''0'',
              hex_digit (of_char c div 16), hex_digit (of_char c)]
      else [c])"

definition quote :: "string \<Rightarrow> string" where
  "quote s = CHR 0x22 # concat (map escape_char s) @ [CHR 0x22]"

fun JSON_stringify :: "jsval \<Rightarrow> string"
  and stringify_elems :: "jsval list \<Rightarrow> string list"
  and stringify_props :: "(string \<times> jsval) list \<Rightarrow> string list" where
  "JSON_stringify JUndefined = ''undefined''"
| "JSON_stringify JNull = ''null''"
| "JSON_stringify (JBool b) = (if b then ''true'' else ''false'')"
| "JSON_stringify (JNum n) = show_int n"
| "JSON_stringify (JStr s) = quote s"
| "JSON_stringify (JArr xs) = ''['' @ join '','' (stringify_elems xs) @ '']''"
| "JSON_stringify (JObj kvs) = ''{'' @ join '','' (stringify_props kvs) @ ''}''"
| "stringify_elems [] = []"
| "stringify_elems (x # xs) =
     (if x = JUndefined then ''null'' else JSON_stringify x) # stringify_elems xs"
| "stringify_props [] = []"
| "stringify_props ((k, v) # kvs) =
     (if v = JUndefined then stringify_props kvs
      else (quote k @ '':'' @ JSON_stringify v) # stringify_props kvs)"

section \<open>Exceptions and results\<close>

text \<open>
  A thrown value is either an \<open>Error\<close> object, of which the code reads \<open>.message\<close>, or
  some other value, which fails \<open>error instanceof Error\<close>. The message of a validation
  error is the validator library's rendering of its issue list; it is kept symbolic as
  \<open>ZodIssues\<close>, every other message is text. A computation that may throw returns
  \<open>exn + 'a\<close>, with \<open>Inl\<close> the thrown value.
\<close>

datatype zod_issue = ZodIssue "string list" string

datatype message = Text string | ZodIssues "zod_issue list"

datatype exn = Error message | NonError jsval

text \<open>\<open>error instanceof Error ? error.message : 'Unknown error'\<close>\<close>

fun message_or_unknown :: "exn \<Rightarrow> message" where
  "message_or_unknown (Error m) = m"
| "message_or_unknown (NonError v) = Text ''Unknown error''"

text \<open>\<open>error instanceof Error ? error.message : String(error)\<close>\<close>

fun message_or_String :: "exn \<Rightarrow> message" where
  "message_or_String (Error m) = m"
| "message_or_String (NonError v) = Text (to_String v)"

text \<open>
  \<open>ToolResult\<close> of \<open>types/tools.ts\<close>: \<open>data\<close>, \<open>error\<close> and \<open>metadata\<close> are optional
  properties. An absent \<open>data\<close> is \<open>JUndefined\<close>, an absent \<open>error\<close> or \<open>metadata\<close> is
  \<open>None\<close>.
\<close>

record ToolResult =
  success :: bool
  data :: jsval
  error :: "message option"
  metadata :: "obj option"

section \<open>Environment\<close>

text \<open>
  The fields of \<open>config/environment.ts\<close> that the gateway reads. \<open>MCP_API_KEY\<close> and
  \<open>REDIS_URL\<close> are optional strings.
\<close>

record environment =
  NODE_ENV :: string
  MCP_API_KEY :: "string option"
  REDIS_URL :: "string option"
  ENABLE_CACHE :: bool
  CACHE_TTL_SECONDS :: int

text \<open>\<open>!s\<close> for an optional string: true when it is absent or empty.\<close>

fun absent :: "string option \<Rightarrow> bool" where
  "absent None = True"
| "absent (Some s) = (s = [])"

section \<open>Cache layer\<close>

text \<open>
  The state of the cache backend when a call reaches it. \<open>InitFails\<close>: constructing the
  client throws. \<open>Unreachable\<close>: the client exists and every command rejects (a
  connection failure). \<open>Live m\<close>: commands succeed on the entries \<open>m\<close>; an entry holds the
  time-to-live it was written with and the JSON value its text parses to. Entries expire
  in the backend between calls, so a call is given the backend as it is at that moment.
  An entry whose text is empty or does not parse reads as a miss (\<open>getCached\<close> returns
  \<open>null\<close> for both), so it is represented as no entry. Logging has no effect on any
  result and is left out throughout.
\<close>

datatype redis = InitFails | Unreachable | Live "string \<rightharpoonup> int \<times> jsval"

definition getRedisClient :: "environment \<Rightarrow> redis \<Rightarrow> redis option" where
  "getRedisClient env r =
     (if \<not> ENABLE_CACHE env \<or> absent (REDIS_URL env) then None
      else (case r of InitFails \<Rightarrow> None | _ \<Rightarrow> Some r))"

text \<open>
  \<open>getCached\<close> returns \<open>null\<close> (here \<open>JNull\<close>) without a client, on a missing entry and
  when the command rejects.
\<close>

definition getCached :: "environment \<Rightarrow> redis \<Rightarrow> string \<Rightarrow> jsval" where
  "getCached env r key =
     (case getRedisClient env r of
        None \<Rightarrow> JNull
      | Some redis \<Rightarrow>
          (case redis of
             Live m \<Rightarrow> (case m key of None \<Rightarrow> JNull | Some (ttl, v) \<Rightarrow> v)
           | _ \<Rightarrow> JNull))"

text \<open>
  \<open>setCached(key, value, ttlSeconds = env.CACHE_TTL_SECONDS)\<close>: the new backend. Nothing
  is returned and nothing is thrown: a rejected command is caught.
\<close>

definition setCached :: "environment \<Rightarrow> redis \<Rightarrow> string \<Rightarrow> jsval \<Rightarrow> int option \<Rightarrow> redis" where
  "setCached env r key v ttlSeconds =
     (case getRedisClient env r of
        None \<Rightarrow> r
      | Some redis \<Rightarrow>
          (case redis of
             Live m \<Rightarrow>
               Live (m(key \<mapsto>
                 ((case ttlSeconds of None \<Rightarrow> CACHE_TTL_SECONDS env | Some t \<Rightarrow> t), v)))
           | _ \<Rightarrow> r))"

section \<open>Record store client\<close>

text \<open>
  A query is what the handler has told the store client's builder: the table, the
  selected columns, the filters in call order, the ordering, the limit and whether a
  single row is asked for. Filter values, and the limit, are the JavaScript values the
  handler passes.
\<close>

datatype pg_filter =
    Eq string jsval
  | Ilike string string
  | Gte string jsval
  | Lte string jsval

record query =
  table :: string
  columns :: "string list"
  filters :: "pg_filter list"
  order_by :: "(string \<times> bool) list"
  limit_n :: "jsval option"
  single_row :: bool

definition from_select :: "string \<Rightarrow> string list \<Rightarrow> query" where
  "from_select t cols =
     \<lparr>table = t, columns = cols, filters = [], order_by = [], limit_n = None,
      single_row = False\<rparr>"

definition eq :: "string \<Rightarrow> jsval \<Rightarrow> query \<Rightarrow> query" where
  "eq col v q = q\<lparr>filters := filters q @ [Eq col v]\<rparr>"

definition ilike :: "string \<Rightarrow> string \<Rightarrow> query \<Rightarrow> query" where
  "ilike col pat q = q\<lparr>filters := filters q @ [Ilike col pat]\<rparr>"

definition gte :: "string \<Rightarrow> jsval \<Rightarrow> query \<Rightarrow> query" where
  "gte col v q = q\<lparr>filters := filters q @ [Gte col v]\<rparr>"

definition lte :: "string \<Rightarrow> jsval \<Rightarrow> query \<Rightarrow> query" where
  "lte col v q = q\<lparr>filters := filters q @ [Lte col v]\<rparr>"

text \<open>\<open>.order(col, { ascending })\<close>\<close>

definition order :: "string \<Rightarrow> bool \<Rightarrow> query \<Rightarrow> query" where
  "order col ascending q = q\<lparr>order_by := order_by q @ [(col, ascending)]\<rparr>"

definition limit :: "jsval \<Rightarrow> query \<Rightarrow> query" where
  "limit n q = q\<lparr>limit_n := Some n\<rparr>"

definition single :: "query \<Rightarrow> query" where
  "single q = q\<lparr>single_row := True\<rparr>"

text \<open>
  Awaiting a query yields \<open>{ data, error }\<close>; \<open>error\<close> is \<open>null\<close> (here \<open>None\<close>) or an
  object of which the handlers read \<open>.message\<close>. Obtaining the client or awaiting the
  query may also throw. The store is a parameter of every handler.
\<close>

record store_response =
  resp_data :: jsval
  resp_error :: "string option"

type_synonym store = "query \<Rightarrow> exn + store_response"

text \<open>
  \<open>Date.now()\<close>: \<open>now k\<close> is the \<open>k\<close>-th reading a handler takes during one call,
  counted from 0.
\<close>

type_synonym clock = "nat \<Rightarrow> int"

section \<open>Tool handlers\<close>

text \<open>
  Each handler is a function of the environment, the store, the clock, the validated
  parameter object and the cache backend, returning its \<open>ToolResult\<close> and the backend
  after the call. The cache key and the query are the handler's own expressions, named
  so that theorems can refer to them.
\<close>

subsection \<open>Courses (\<open>tools/courses.ts\<close>)\<close>

definition searchCourses_cacheKey :: "obj \<Rightarrow> string" where
  "searchCourses_cacheKey params = ''courses:search:'' @ JSON_stringify (JObj params)"

definition searchCourses_query :: "obj \<Rightarrow> query" where
  "searchCourses_query params =
     (let query = from_select ''golf_courses''
            [''id'', ''name'', ''region'', ''course_type'', ''rating'', ''difficulty_level'',
             ''green_fee_standard_cents'', ''description'', ''location'', ''features'',
             ''created_at''];
          query = (if truthy (getp params ''region'')
                   then ilike ''region'' (''%'' @ to_String (getp params ''region'') @ ''%'') query
                   else query);
          query = (if truthy (getp params ''course_type'')
                   then eq ''course_type'' (getp params ''course_type'') query
                   else query);
          query = (if truthy (getp params ''min_price_cents'')
                   then gte ''green_fee_standard_cents'' (getp params ''min_price_cents'') query
                   else query);
          query = (if truthy (getp params ''max_price_cents'')
                   then lte ''green_fee_standard_cents'' (getp params ''max_price_cents'') query
                   else query);
          query = limit (js_or (getp params ''limit'') (JNum 20)) query;
          query = order ''rating'' False query
      in query)"

definition searchCourses ::
  "environment \<Rightarrow> store \<Rightarrow> clock \<Rightarrow> obj \<Rightarrow> redis \<Rightarrow> ToolResult \<times> redis" where
  "searchCourses env db now params r =
     (let startTime = now 0;
          cacheKey = searchCourses_cacheKey params;
          cached = getCached env r cacheKey
      in if truthy cached
         then (\<lparr>success = True, data = cached, error = None,
                 metadata = Some [(''cached'', JBool True)]\<rparr>, r)
         else
           (case db (searchCourses_query params) of
              Inl e \<Rightarrow>
                (\<lparr>success = False, data = JUndefined,
                  error = Some (message_or_unknown e), metadata = None\<rparr>, r)
            | Inr resp \<Rightarrow>
                (case resp_error resp of
                   Some msg \<Rightarrow>
                     (\<lparr>success = False, data = JUndefined,
                       error = Some (Text (''Database error: '' @ msg)), metadata = None\<rparr>, r)
                 | None \<Rightarrow>
                     (let r' = setCached env r cacheKey (resp_data resp) None;
                          duration = now 1 - startTime
                      in (\<lparr>success = True, data = js_or (resp_data resp) (JArr []),
                            error = None,
                            metadata = Some
                              [(''count'', js_or (opt_length (resp_data resp)) (JNum 0)),
                               (''duration_ms'', JNum duration)]\<rparr>, r')))))"

definition getCourseDetails_cacheKey :: "obj \<Rightarrow> string" where
  "getCourseDetails_cacheKey params = ''course:details:'' @ to_String (getp params ''course_id'')"

definition getCourseDetails_query :: "obj \<Rightarrow> query" where
  "getCourseDetails_query params =
     single (eq ''id'' (getp params ''course_id'') (from_select ''golf_courses'' [''*'']))"

definition getCourseDetails ::
  "environment \<Rightarrow> store \<Rightarrow> clock \<Rightarrow> obj \<Rightarrow> redis \<Rightarrow> ToolResult \<times> redis" where
  "getCourseDetails env db now params r =
     (let startTime = now 0;
          cacheKey = getCourseDetails_cacheKey params;
          cached = getCached env r cacheKey
      in if truthy cached
         then (\<lparr>success = True, data = cached, error = None,
                 metadata = Some [(''cached'', JBool True)]\<rparr>, r)
         else
           (case db (getCourseDetails_query params) of
              Inl e \<Rightarrow>
                (\<lparr>success = False, data = JUndefined,
                  error = Some (message_or_unknown e), metadata = None\<rparr>, r)
            | Inr resp \<Rightarrow>
                (case resp_error resp of
                   Some msg \<Rightarrow>
                     (\<lparr>success = False, data = JUndefined,
                       error = Some (Text (''Course not found or database error: '' @ msg)),
                       metadata = None\<rparr>, r)
                 | None \<Rightarrow>
                     (let r' = setCached env r cacheKey (resp_data resp) None;
                          duration = now 1 - startTime
                      in (\<lparr>success = True, data = resp_data resp, error = None,
                            metadata = Some [(''duration_ms'', JNum duration)]\<rparr>, r')))))"

text \<open>
  The budget tier price ranges, in cents. \<open>params.budget_tier\<close> is one of the three keys
  by its type; for any other value the lookup gives \<open>undefined\<close>, on which the \<open>in\<close>
  operator throws a \<open>TypeError\<close> inside the handler's \<open>try\<close>.
\<close>

definition priceRanges :: obj where
  "priceRanges =
     [(''budget'', JObj [(''max'', JNum 15000)]),
      (''standard'', JObj [(''min'', JNum 15000), (''max'', JNum 35000)]),
      (''luxury'', JObj [(''min'', JNum 35000)])]"

text \<open>\<open>k in o\<close>\<close>

definition has_key :: "string \<Rightarrow> obj \<Rightarrow> bool" where
  "has_key k ob = (map_of ob k \<noteq> None)"

definition getRecommendedCourses_cacheKey :: "obj \<Rightarrow> string" where
  "getRecommendedCourses_cacheKey params =
     ''courses:recommended:'' @ JSON_stringify (JObj params)"

definition getRecommendedCourses_query :: "obj \<Rightarrow> exn + query" where
  "getRecommendedCourses_query params =
     (let range = getp priceRanges (to_String (getp params ''budget_tier''));
          query = from_select ''golf_courses''
            [''id'', ''name'', ''region'', ''course_type'', ''rating'', ''difficulty_level'',
             ''green_fee_standard_cents'', ''description'', ''features''];
          query = ilike ''region'' (''%'' @ to_String (getp params ''region'') @ ''%'') query;
          query = order ''rating'' False query;
          query = limit (js_or (getp params ''limit'') (JNum 10)) query
      in case range of
           JObj rg \<Rightarrow>
             (let query = (if has_key ''min'' rg \<and> getp rg ''min'' \<noteq> JUndefined
                           then gte ''green_fee_standard_cents'' (getp rg ''min'') query
                           else query);
                  query = (if has_key ''max'' rg \<and> getp rg ''max'' \<noteq> JUndefined
                           then lte ''green_fee_standard_cents'' (getp rg ''max'') query
                           else query)
              in Inr query)
         | _ \<Rightarrow>
             Inl (Error (Text
               ''Cannot use 'in' operator to search for 'min' in undefined'')))"

definition getRecommendedCourses ::
  "environment \<Rightarrow> store \<Rightarrow> clock \<Rightarrow> obj \<Rightarrow> redis \<Rightarrow> ToolResult \<times> redis" where
  "getRecommendedCourses env db now params r =
     (let startTime = now 0;
          cacheKey = getRecommendedCourses_cacheKey params;
          cached = getCached env r cacheKey
      in if truthy cached
         then (\<lparr>success = True, data = cached, error = None,
                 metadata = Some [(''cached'', JBool True)]\<rparr>, r)
         else
           (case getRecommendedCourses_query params of
              Inl e \<Rightarrow>
                (\<lparr>success = False, data = JUndefined,
                  error = Some (message_or_unknown e), metadata = None\<rparr>, r)
            | Inr query \<Rightarrow>
           (case db query of
              Inl e \<Rightarrow>
                (\<lparr>success = False, data = JUndefined,
                  error = Some (message_or_unknown e), metadata = None\<rparr>, r)
            | Inr resp \<Rightarrow>
                (case resp_error resp of
                   Some msg \<Rightarrow>
                     (\<lparr>success = False, data = JUndefined,
                       error = Some (Text (''Database error: '' @ msg)), metadata = None\<rparr>, r)
                 | None \<Rightarrow>
                     (let r' = setCached env r cacheKey (resp_data resp) None;
                          duration = now 1 - startTime
                      in (\<lparr>success = True, data = js_or (resp_data resp) (JArr []),
                            error = None,
                            metadata = Some
                              [(''count'', js_or (opt_length (resp_data resp)) (JNum 0)),
                               (''budget_tier'', getp params ''budget_tier''),
                               (''duration_ms'', JNum duration)]\<rparr>, r'))))))"

definition findCourseByName_query :: "jsval \<Rightarrow> query" where
  "findCourseByName_query courseName =
     limit (JNum 10)
       (ilike ''name'' (''%'' @ to_String courseName @ ''%'')
         (from_select ''golf_courses''
           [''id'', ''name'', ''region'', ''course_type'', ''green_fee_standard_cents'']))"

definition findCourseByName :: "store \<Rightarrow> clock \<Rightarrow> jsval \<Rightarrow> ToolResult" where
  "findCourseByName db now courseName =
     (let startTime = now 0
      in case db (findCourseByName_query courseName) of
           Inl e \<Rightarrow>
             \<lparr>success = False, data = JUndefined,
               error = Some (message_or_unknown e), metadata = None\<rparr>
         | Inr resp \<Rightarrow>
             (case resp_error resp of
                Some msg \<Rightarrow>
                  \<lparr>success = False, data = JUndefined,
                    error = Some (Text (''Database error: '' @ msg)), metadata = None\<rparr>
              | None \<Rightarrow>
                  (let duration = now 1 - startTime
                   in \<lparr>success = True, data = js_or (resp_data resp) (JArr []),
                        error = None,
                        metadata = Some
                          [(''count'', js_or (opt_length (resp_data resp)) (JNum 0)),
                           (''duration_ms'', JNum duration)]\<rparr>)))"

subsection \<open>Accommodations (\<open>tools/accommodations.ts\<close>)\<close>

definition searchAccommodations_cacheKey :: "obj \<Rightarrow> string" where
  "searchAccommodations_cacheKey params =
     ''accommodations:search:'' @ JSON_stringify (JObj params)"

definition searchAccommodations_query :: "obj \<Rightarrow> query" where
  "searchAccommodations_query params =
     (let query = from_select ''accommodations''
            [''id'', ''name'', ''type'', ''region'', ''rating'', ''standard_rate_cents'',
             ''description'', ''amenities'', ''location''];
          query = (if truthy (getp params ''region'')
                   then ilike ''region'' (''%'' @ to_String (getp params ''region'') @ ''%'') query
                   else query);
          query = (if truthy (getp params ''min_price_cents'')
                   then gte ''standard_rate_cents'' (getp params ''min_price_cents'') query
                   else query);
          query = (if truthy (getp params ''max_price_cents'')
                   then lte ''standard_rate_cents'' (getp params ''max_price_cents'') query
                   else query);
          query = limit (js_or (getp params ''limit'') (JNum 20)) query;
          query = order ''rating'' False query
      in query)"

definition searchAccommodations ::
  "environment \<Rightarrow> store \<Rightarrow> clock \<Rightarrow> obj \<Rightarrow> redis \<Rightarrow> ToolResult \<times> redis" where
  "searchAccommodations env db now params r =
     (let startTime = now 0;
          cacheKey = searchAccommodations_cacheKey params;
          cached = getCached env r cacheKey
      in if truthy cached
         then (\<lparr>success = True, data = cached, error = None,
                 metadata = Some [(''cached'', JBool True)]\<rparr>, r)
         else
           (case db (searchAccommodations_query params) of
              Inl e \<Rightarrow>
                (\<lparr>success = False, data = JUndefined,
                  error = Some (message_or_unknown e), metadata = None\<rparr>, r)
            | Inr resp \<Rightarrow>
                (case resp_error resp of
                   Some msg \<Rightarrow>
                     (\<lparr>success = False, data = JUndefined,
                       error = Some (Text (''Database error: '' @ msg)), metadata = None\<rparr>, r)
                 | None \<Rightarrow>
                     (let r' = setCached env r cacheKey (resp_data resp) None;
                          duration = now 1 - startTime
                      in (\<lparr>success = True, data = js_or (resp_data resp) (JArr []),
                            error = None,
                            metadata = Some
                              [(''count'', js_or (opt_length (resp_data resp)) (JNum 0)),
                               (''duration_ms'', JNum duration)]\<rparr>, r')))))"

definition getAccommodationDetails_cacheKey :: "obj \<Rightarrow> string" where
  "getAccommodationDetails_cacheKey params =
     ''accommodation:details:'' @ to_String (getp params ''accommodation_id'')"

definition getAccommodationDetails_query :: "obj \<Rightarrow> query" where
  "getAccommodationDetails_query params =
     single (eq ''id'' (getp params ''accommodation_id'') (from_select ''accommodations'' [''*'']))"

definition getAccommodationDetails ::
  "environment \<Rightarrow> store \<Rightarrow> clock \<Rightarrow> obj \<Rightarrow> redis \<Rightarrow> ToolResult \<times> redis" where
  "getAccommodationDetails env db now params r =
     (let startTime = now 0;
          cacheKey = getAccommodationDetails_cacheKey params;
          cached = getCached env r cacheKey
      in if truthy cached
         then (\<lparr>success = True, data = cached, error = None,
                 metadata = Some [(''cached'', JBool True)]\<rparr>, r)
         else
           (case db (getAccommodationDetails_query params) of
              Inl e \<Rightarrow>
                (\<lparr>success = False, data = JUndefined,
                  error = Some (message_or_unknown e), metadata = None\<rparr>, r)
            | Inr resp \<Rightarrow>
                (case resp_error resp of
                   Some msg \<Rightarrow>
                     (\<lparr>success = False, data = JUndefined,
                       error = Some (Text
                         (''Accommodation not found or database error: '' @ msg)),
                       metadata = None\<rparr>, r)
                 | None \<Rightarrow>
                     (let r' = setCached env r cacheKey (resp_data resp) None;
                          duration = now 1 - startTime
                      in (\<lparr>success = True, data = resp_data resp, error = None,
                            metadata = Some [(''duration_ms'', JNum duration)]\<rparr>, r')))))"

definition getGolfResorts_cacheKey :: "jsval \<Rightarrow> string" where
  "getGolfResorts_cacheKey region = ''resorts:'' @ to_String (js_or region (JStr ''all''))"

definition getGolfResorts_query :: "jsval \<Rightarrow> query" where
  "getGolfResorts_query region =
     (let query = eq ''is_golf_resort'' (JBool True) (from_select ''accommodations'' [''*'']);
          query = (if truthy region
                   then ilike ''region'' (''%'' @ to_String region @ ''%'') query
                   else query)
      in query)"

definition getGolfResorts ::
  "environment \<Rightarrow> store \<Rightarrow> clock \<Rightarrow> jsval \<Rightarrow> redis \<Rightarrow> ToolResult \<times> redis" where
  "getGolfResorts env db now region r =
     (let startTime = now 0;
          cacheKey = getGolfResorts_cacheKey region;
          cached = getCached env r cacheKey
      in if truthy cached
         then (\<lparr>success = True, data = cached, error = None,
                 metadata = Some [(''cached'', JBool True)]\<rparr>, r)
         else
           (case db (getGolfResorts_query region) of
              Inl e \<Rightarrow>
                (\<lparr>success = False, data = JUndefined,
                  error = Some (message_or_unknown e), metadata = None\<rparr>, r)
            | Inr resp \<Rightarrow>
                (case resp_error resp of
                   Some msg \<Rightarrow>
                     (\<lparr>success = False, data = JUndefined,
                       error = Some (Text (''Database error: '' @ msg)), metadata = None\<rparr>, r)
                 | None \<Rightarrow>
                     (let r' = setCached env r cacheKey (resp_data resp) None;
                          duration = now 1 - startTime
                      in (\<lparr>success = True, data = js_or (resp_data resp) (JArr []),
                            error = None,
                            metadata = Some
                              [(''count'', js_or (opt_length (resp_data resp)) (JNum 0)),
                               (''duration_ms'', JNum duration)]\<rparr>, r')))))"

subsection \<open>Rates and suppliers (\<open>tools/rates.ts\<close>)\<close>

definition getSupplierRates_cacheKey :: "obj \<Rightarrow> string" where
  "getSupplierRates_cacheKey params =
     ''rates:'' @ to_String (getp params ''operator_id'') @ '':'' @
       to_String (js_or (getp params ''supplier_type'') (JStr ''all''))"

definition getSupplierRates_query :: "obj \<Rightarrow> query" where
  "getSupplierRates_query params =
     (let query = eq ''operator_id'' (getp params ''operator_id'')
            (from_select ''operator_supplier_rates''
              [''id'', ''operator_id'', ''supplier_id'', ''supplier_type'', ''rate_cents'',
               ''discount_percentage'', ''valid_from'', ''valid_until'', ''notes'']);
          query = (if truthy (getp params ''supplier_type'') \<and>
                      getp params ''supplier_type'' \<noteq> JStr ''any''
                   then eq ''supplier_type'' (getp params ''supplier_type'') query
                   else query)
      in query)"

definition getSupplierRates ::
  "environment \<Rightarrow> store \<Rightarrow> clock \<Rightarrow> obj \<Rightarrow> redis \<Rightarrow> ToolResult \<times> redis" where
  "getSupplierRates env db now params r =
     (let startTime = now 0;
          cacheKey = getSupplierRates_cacheKey params;
          cached = getCached env r cacheKey
      in if truthy cached
         then (\<lparr>success = True, data = cached, error = None,
                 metadata = Some [(''cached'', JBool True)]\<rparr>, r)
         else
           (case db (getSupplierRates_query params) of
              Inl e \<Rightarrow>
                (\<lparr>success = False, data = JUndefined,
                  error = Some (message_or_unknown e), metadata = None\<rparr>, r)
            | Inr resp \<Rightarrow>
                (case resp_error resp of
                   Some msg \<Rightarrow>
                     (\<lparr>success = False, data = JUndefined,
                       error = Some (Text (''Database error: '' @ msg)), metadata = None\<rparr>, r)
                 | None \<Rightarrow>
                     (let r' = setCached env r cacheKey (resp_data resp) (Some 600);
                          duration = now 1 - startTime
                      in (\<lparr>success = True, data = js_or (resp_data resp) (JArr []),
                            error = None,
                            metadata = Some
                              [(''count'', js_or (opt_length (resp_data resp)) (JNum 0)),
                               (''duration_ms'', JNum duration)]\<rparr>, r')))))"

text \<open>Property access \<open>v.k\<close> on a truthy value: \<open>undefined\<close> unless \<open>v\<close> is an object.\<close>

fun getv :: "jsval \<Rightarrow> string \<Rightarrow> jsval" where
  "getv (JObj kvs) k = getp kvs k"
| "getv v k = JUndefined"

definition hasNegotiatedRate_query :: "obj \<Rightarrow> query" where
  "hasNegotiatedRate_query params =
     single
       (eq ''supplier_id'' (getp params ''supplier_id'')
         (eq ''operator_id'' (getp params ''operator_id'')
           (from_select ''operator_supplier_rates''
             [''id'', ''rate_cents'', ''discount_percentage''])))"

definition hasNegotiatedRate :: "store \<Rightarrow> obj \<Rightarrow> ToolResult" where
  "hasNegotiatedRate db params =
     (case db (hasNegotiatedRate_query params) of
        Inl e \<Rightarrow>
          \<lparr>success = False, data = JUndefined,
            error = Some (message_or_unknown e), metadata = None\<rparr>
      | Inr resp \<Rightarrow>
          (if resp_error resp \<noteq> None \<or> \<not> truthy (resp_data resp)
           then \<lparr>success = True, data = JObj [(''has_rate'', JBool False)],
                  error = None, metadata = None\<rparr>
           else \<lparr>success = True,
                  data = JObj
                    [(''has_rate'', JBool True),
                     (''rate_cents'', getv (resp_data resp) ''rate_cents''),
                     (''discount_percentage'', getv (resp_data resp) ''discount_percentage'')],
                  error = None, metadata = None\<rparr>))"

definition getOperatorSuppliers_cacheKey :: "jsval \<Rightarrow> string" where
  "getOperatorSuppliers_cacheKey operatorId = ''suppliers:'' @ to_String operatorId"

definition getOperatorSuppliers_query :: "jsval \<Rightarrow> query" where
  "getOperatorSuppliers_query operatorId =
     eq ''operator_id'' operatorId
       (from_select ''operator_supplier_rates''
         [''supplier_id'', ''supplier_type'', ''rate_cents'', ''discount_percentage''])"

definition getOperatorSuppliers ::
  "environment \<Rightarrow> store \<Rightarrow> jsval \<Rightarrow> redis \<Rightarrow> ToolResult \<times> redis" where
  "getOperatorSuppliers env db operatorId r =
     (let cacheKey = getOperatorSuppliers_cacheKey operatorId;
          cached = getCached env r cacheKey
      in if truthy cached
         then (\<lparr>success = True, data = cached, error = None,
                 metadata = Some [(''cached'', JBool True)]\<rparr>, r)
         else
           (case db (getOperatorSuppliers_query operatorId) of
              Inl e \<Rightarrow>
                (\<lparr>success = False, data = JUndefined,
                  error = Some (message_or_unknown e), metadata = None\<rparr>, r)
            | Inr resp \<Rightarrow>
                (case resp_error resp of
                   Some msg \<Rightarrow>
                     (\<lparr>success = False, data = JUndefined,
                       error = Some (Text (''Database error: '' @ msg)), metadata = None\<rparr>, r)
                 | None \<Rightarrow>
                     (let r' = setCached env r cacheKey (resp_data resp) (Some 600)
                      in (\<lparr>success = True, data = js_or (resp_data resp) (JArr []),
                            error = None,
                            metadata = Some
                              [(''count'', js_or (opt_length (resp_data resp)) (JNum 0))]\<rparr>,
                          r')))))"

section \<open>Input schemas (\<open>types/tools.ts\<close>)\<close>

text \<open>
  A validator schema is described by the calls that build it: \<open>z.string()\<close>,
  \<open>z.string().uuid()\<close>, \<open>z.number()\<close>, \<open>z.enum([...])\<close>, \<open>z.array(t)\<close>, each plain,
  \<open>.optional()\<close> or \<open>.default(v)\<close>, inside \<open>z.object({...})\<close>; \<open>.describe\<close> does not affect
  validation. Three tools of the registry carry a plain object literal instead of a
  validator.
\<close>

datatype ztype = ZString | ZUuid | ZNumber | ZEnum "string list" | ZArray ztype

datatype zfield = Required ztype | Optional ztype | Default ztype jsval

datatype schema = ZodObject "(string \<times> zfield) list" | PlainObject obj

definition SearchCoursesSchema :: schema where
  "SearchCoursesSchema = ZodObject
     [(''region'', Optional ZString),
      (''course_type'', Optional (ZEnum [''links'', ''parkland'', ''resort'', ''heathland''])),
      (''min_price_cents'', Optional ZNumber),
      (''max_price_cents'', Optional ZNumber),
      (''limit'', Default ZNumber (JNum 20))]"

definition GetCourseDetailsSchema :: schema where
  "GetCourseDetailsSchema = ZodObject [(''course_id'', Required ZUuid)]"

definition GetRecommendedCoursesSchema :: schema where
  "GetRecommendedCoursesSchema = ZodObject
     [(''region'', Required ZString),
      (''budget_tier'', Required (ZEnum [''budget'', ''standard'', ''luxury''])),
      (''limit'', Default ZNumber (JNum 10))]"

definition SearchAccommodationsSchema :: schema where
  "SearchAccommodationsSchema = ZodObject
     [(''region'', Optional ZString),
      (''near_course_id'', Optional ZUuid),
      (''min_price_cents'', Optional ZNumber),
      (''max_price_cents'', Optional ZNumber),
      (''amenities'', Optional (ZArray ZString)),
      (''limit'', Default ZNumber (JNum 20))]"

definition GetAccommodationDetailsSchema :: schema where
  "GetAccommodationDetailsSchema = ZodObject [(''accommodation_id'', Required ZUuid)]"

definition GetSupplierRatesSchema :: schema where
  "GetSupplierRatesSchema = ZodObject
     [(''operator_id'', Required ZUuid),
      (''supplier_type'',
         Optional (ZEnum [''golf_course'', ''accommodation'', ''transport'', ''any'']))]"

definition HasNegotiatedRateSchema :: schema where
  "HasNegotiatedRateSchema = ZodObject
     [(''operator_id'', Required ZUuid), (''supplier_id'', Required ZUuid)]"

subsection \<open>Validation\<close>

text \<open>
  What \<open>schema.parse(input)\<close> of the validator library does for these schemas. The
  library's test of the uuid format is a parameter, \<open>uuid\<close>. A value is checked against
  its type without being converted; the issues of all properties are collected, each
  with its path; an absent optional property stays absent, an absent property with a
  default takes the default, unknown properties are dropped. With no issue the result is
  the object of the schema's properties in the schema's order, otherwise \<open>parse\<close> throws
  the validation error.
\<close>

fun check :: "(string \<Rightarrow> bool) \<Rightarrow> ztype \<Rightarrow> string list \<Rightarrow> jsval \<Rightarrow> zod_issue list"
  and check_elems ::
    "(string \<Rightarrow> bool) \<Rightarrow> ztype \<Rightarrow> string list \<Rightarrow> nat \<Rightarrow> jsval list \<Rightarrow> zod_issue list" where
  "check uuid ZString path v =
     (case v of JStr s \<Rightarrow> [] | _ \<Rightarrow> [ZodIssue path ''invalid_type''])"
| "check uuid ZUuid path v =
     (case v of
        JStr s \<Rightarrow> (if uuid s then [] else [ZodIssue path ''invalid_string''])
      | _ \<Rightarrow> [ZodIssue path ''invalid_type''])"
| "check uuid ZNumber path v =
     (case v of JNum n \<Rightarrow> [] | _ \<Rightarrow> [ZodIssue path ''invalid_type''])"
| "check uuid (ZEnum vs) path v =
     (case v of
        JStr s \<Rightarrow> (if s \<in> set vs then [] else [ZodIssue path ''invalid_enum_value''])
      | _ \<Rightarrow> [ZodIssue path ''invalid_type''])"
| "check uuid (ZArray t) path v =
     (case v of
        JArr xs \<Rightarrow> check_elems uuid t path 0 xs
      | _ \<Rightarrow> [ZodIssue path ''invalid_type''])"
| "check_elems uuid t path i [] = []"
| "check_elems uuid t path i (x # xs) =
     check uuid t (path @ [show_nat i]) x @ check_elems uuid t path (Suc i) xs"

fun field_issues :: "(string \<Rightarrow> bool) \<Rightarrow> obj \<Rightarrow> string \<times> zfield \<Rightarrow> zod_issue list" where
  "field_issues uuid input (k, Required t) = check uuid t [k] (getp input k)"
| "field_issues uuid input (k, Optional t) =
     (if getp input k = JUndefined then [] else check uuid t [k] (getp input k))"
| "field_issues uuid input (k, Default t d) =
     (if getp input k = JUndefined then [] else check uuid t [k] (getp input k))"

fun field_output :: "obj \<Rightarrow> string \<times> zfield \<Rightarrow> obj" where
  "field_output input (k, Required t) = [(k, getp input k)]"
| "field_output input (k, Optional t) =
     (if getp input k = JUndefined then [] else [(k, getp input k)])"
| "field_output input (k, Default t d) =
     (if getp input k = JUndefined then [(k, d)] else [(k, getp input k)])"

definition zod_parse ::
  "(string \<Rightarrow> bool) \<Rightarrow> (string \<times> zfield) list \<Rightarrow> jsval \<Rightarrow> exn + obj" where
  "zod_parse uuid shape input =
     (case input of
        JObj kvs \<Rightarrow>
          (let issues = concat (map (field_issues uuid kvs) shape)
           in if issues = [] then Inr (concat (map (field_output kvs) shape))
              else Inl (Error (ZodIssues issues)))
      | _ \<Rightarrow> Inl (Error (ZodIssues [ZodIssue [] ''invalid_type''])))"

text \<open>
  \<open>tool.inputSchema.parse(args)\<close>. A plain object literal of the registry has no
  property \<open>parse\<close>, so the call throws a \<open>TypeError\<close> before anything is validated.
\<close>

fun parse :: "(string \<Rightarrow> bool) \<Rightarrow> schema \<Rightarrow> jsval \<Rightarrow> exn + obj" where
  "parse uuid (ZodObject shape) input = zod_parse uuid shape input"
| "parse uuid (PlainObject ob) input =
     Inl (Error (Text ''tool.inputSchema.parse is not a function''))"

section \<open>Tool registry (\<open>tools/index.ts\<close>)\<close>

record ToolDefinition =
  name :: string
  description :: string
  inputSchema :: schema
  execute :: "environment \<Rightarrow> store \<Rightarrow> clock \<Rightarrow> obj \<Rightarrow> redis \<Rightarrow> ToolResult \<times> redis"

definition tools :: "ToolDefinition list" where
  "tools =
     [\<lparr>name = ''search_courses'',
       description = ''Search for golf courses by region, type, and price range. Returns a list of courses with basic information.'',
       inputSchema = SearchCoursesSchema,
       execute = searchCourses\<rparr>,
      \<lparr>name = ''get_course_details'',
       description = ''Get comprehensive details about a specific golf course including pricing, features, and contact information.'',
       inputSchema = GetCourseDetailsSchema,
       execute = getCourseDetails\<rparr>,
      \<lparr>name = ''get_recommended_courses'',
       description = ''Get AI-recommended courses for a region based on budget tier (budget/standard/luxury). Returns top-rated courses in price range.'',
       inputSchema = GetRecommendedCoursesSchema,
       execute = getRecommendedCourses\<rparr>,
      \<lparr>name = ''find_course_by_name'',
       description = ''Find courses by name using fuzzy search. Useful when user mentions specific course names.'',
       inputSchema = PlainObject [(''courseName'', JObj [(''type'', JStr ''string'')])],
       execute = (\<lambda>env db now params r.
         (findCourseByName db now (getp params ''courseName''), r))\<rparr>,
      \<lparr>name = ''search_accommodations'',
       description = ''Search for hotels and accommodations by region, amenities, and price range.'',
       inputSchema = SearchAccommodationsSchema,
       execute = searchAccommodations\<rparr>,
      \<lparr>name = ''get_accommodation_details'',
       description = ''Get detailed information about a specific accommodation including rooms, amenities, and rates.'',
       inputSchema = GetAccommodationDetailsSchema,
       execute = getAccommodationDetails\<rparr>,
      \<lparr>name = ''get_golf_resorts'',
       description = ''Find golf resorts (accommodations with on-site golf courses) perfect for stay-and-play packages.'',
       inputSchema = PlainObject
         [(''region'', JObj [(''type'', JStr ''string''), (''optional'', JBool True)])],
       execute = (\<lambda>env db now params r.
         getGolfResorts env db now (getp params ''region'') r)\<rparr>,
      \<lparr>name = ''get_supplier_rates'',
       description = ''Get tour operator's negotiated rates with suppliers (courses, hotels, etc). Always check this for cost savings!'',
       inputSchema = GetSupplierRatesSchema,
       execute = getSupplierRates\<rparr>,
      \<lparr>name = ''has_negotiated_rate'',
       description = ''Quick check if operator has a special negotiated rate with a specific supplier.'',
       inputSchema = HasNegotiatedRateSchema,
       execute = (\<lambda>env db now params r. (hasNegotiatedRate db params, r))\<rparr>,
      \<lparr>name = ''get_operator_suppliers'',
       description = ''List all of an operator's supplier relationships and negotiated rates.'',
       inputSchema = PlainObject [(''operatorId'', JObj [(''type'', JStr ''string'')])],
       execute = (\<lambda>env db now params r.
         getOperatorSuppliers env db (getp params ''operatorId'') r)\<rparr>]"

text \<open>\<open>tools.find(t => t.name === name)\<close>: the first match, or \<open>undefined\<close> (here \<open>None\<close>).\<close>

definition getTool :: "string \<Rightarrow> ToolDefinition option" where
  "getTool nm = find (\<lambda>t. name t = nm) tools"

text \<open>The catalogue entry \<open>{ name, description, inputSchema }\<close> is a triple.\<close>

definition listTools :: "(string \<times> string \<times> schema) list" where
  "listTools = map (\<lambda>t. (name t, description t, inputSchema t)) tools"

section \<open>Transport adapters (\<open>server.ts\<close>)\<close>

text \<open>
  An HTTP response is its status and its JSON body: the object \<open>{ error }\<close> of the
  authentication check, or an object with the properties of a \<open>ToolResult\<close>.
\<close>

datatype json_body = ErrorBody string | ResultBody ToolResult

record http_response =
  status :: nat
  body :: json_body

text \<open>
  \<open>authMiddleware\<close>, given the request's \<open>Authorization\<close> header: \<open>None\<close> is \<open>next()\<close>,
  the request goes on to the route's handler; \<open>Some\<close> is the response sent instead.
\<close>

definition authMiddleware :: "environment \<Rightarrow> string option \<Rightarrow> http_response option" where
  "authMiddleware env authHeader =
     (if absent (MCP_API_KEY env) then None
      else (case authHeader of
              None \<Rightarrow>
                Some \<lparr>status = 401, body = ErrorBody ''Missing or invalid authorization header''\<rparr>
            | Some h \<Rightarrow>
                if h = [] \<or> \<not> prefix ''Bearer '' h
                then Some \<lparr>status = 401,
                            body = ErrorBody ''Missing or invalid authorization header''\<rparr>
                else (let token = drop 7 h
                      in if Some token \<noteq> MCP_API_KEY env
                         then Some \<lparr>status = 403, body = ErrorBody ''Invalid API key''\<rparr>
                         else None)))"

text \<open>
  The handler of \<open>POST /api/tools/:toolName\<close>, given the path's tool name and the parsed
  request body. The handlers of the registry return their failures as results, so the
  \<open>catch\<close> is reached by what \<open>parse\<close> throws.
\<close>

definition post_tool ::
  "(string \<Rightarrow> bool) \<Rightarrow> environment \<Rightarrow> store \<Rightarrow> clock \<Rightarrow> string \<Rightarrow> jsval \<Rightarrow> redis
     \<Rightarrow> http_response \<times> redis" where
  "post_tool uuid env db now toolName req_body r =
     (case getTool toolName of
        None \<Rightarrow>
          (\<lparr>status = 404,
            body = ResultBody
              \<lparr>success = False, data = JUndefined,
               error = Some (Text (''Tool '' @ [CHR 0x27] @ toolName @ [CHR 0x27] @ '' not found'')),
               metadata = None\<rparr>\<rparr>, r)
      | Some tool \<Rightarrow>
          (case parse uuid (inputSchema tool) req_body of
             Inl e \<Rightarrow>
               (\<lparr>status = 500,
                 body = ResultBody
                   \<lparr>success = False, data = JUndefined,
                    error = Some (message_or_unknown e), metadata = None\<rparr>\<rparr>, r)
           | Inr validatedArgs \<Rightarrow>
               (let (result, r') = execute tool env db now validatedArgs r
                in (\<lparr>status = 200, body = ResultBody result\<rparr>, r'))))"

text \<open>The route: the authentication check, then the handler.\<close>

definition api_tools_route ::
  "(string \<Rightarrow> bool) \<Rightarrow> environment \<Rightarrow> store \<Rightarrow> clock \<Rightarrow> string option \<Rightarrow> string \<Rightarrow> jsval
     \<Rightarrow> redis \<Rightarrow> http_response \<times> redis" where
  "api_tools_route uuid env db now authHeader toolName req_body r =
     (case authMiddleware env authHeader of
        Some response \<Rightarrow> (response, r)
      | None \<Rightarrow> post_tool uuid env db now toolName req_body r)"

text \<open>
  The session protocol's \<open>call tool\<close> handler. The reply holds one text item, the JSON
  text of an object with the properties of a \<open>ToolResult\<close>; the reply is represented by
  that object and the flag \<open>isError\<close> (absent, here \<open>False\<close>, on the first return).
\<close>

record call_reply =
  content :: ToolResult
  isError :: bool

definition call_tool ::
  "(string \<Rightarrow> bool) \<Rightarrow> environment \<Rightarrow> store \<Rightarrow> clock \<Rightarrow> string \<Rightarrow> jsval \<Rightarrow> redis
     \<Rightarrow> call_reply \<times> redis" where
  "call_tool uuid env db now nm args r =
     (case getTool nm of
        None \<Rightarrow>
          (\<lparr>content =
              \<lparr>success = False, data = JUndefined,
               error = Some (message_or_String (Error (Text (''Unknown tool: '' @ nm)))),
               metadata = None\<rparr>,
            isError = True\<rparr>, r)
      | Some tool \<Rightarrow>
          (case parse uuid (inputSchema tool) args of
             Inl e \<Rightarrow>
               (\<lparr>content =
                   \<lparr>success = False, data = JUndefined,
                    error = Some (message_or_String e), metadata = None\<rparr>,
                 isError = True\<rparr>, r)
           | Inr validatedArgs \<Rightarrow>
               (let (result, r') = execute tool env db now validatedArgs r
                in (\<lparr>content = result, isError = False\<rparr>, r'))))"

section \<open>A table store\<close>

text \<open>
  The record store is an external service. For the claims about which rows a lookup
  selects, its documented behaviour on one request is written out here over tables held
  as lists of rows: a row passes when it passes every filter, the passing rows are
  ordered, then truncated to the limit, then projected to the selected columns. A
  comparison with a \<open>null\<close> or absent column fails. Ordering is by numeric columns;
  descending order puts \<open>null\<close> first and ascending order puts it last, and rows with
  equal keys keep their table order. A limit that is not a non-negative integer is not
  modelled (it reads as 0 here); the theorems about this store assume one.
\<close>

type_synonym row = obj

text \<open>Lower case of an ASCII letter; other characters are unchanged.\<close>

definition lower_char :: "char \<Rightarrow> char" where
  "lower_char c =
     (case map_of (zip ''ABCDEFGHIJKLMNOPQRSTUVWXYZ'' ''abcdefghijklmnopqrstuvwxyz'') c of
        Some d \<Rightarrow> d
      | None \<Rightarrow> c)"

text \<open>
  \<open>LIKE\<close>: in the pattern \<open>%\<close> matches any text, \<open>_\<close> any one character, and a backslash
  makes the next character literal. The store's request syntax also reads \<open>*\<close> as \<open>%\<close>.
  \<open>ILIKE\<close> compares without regard to case.
\<close>

fun like :: "string \<Rightarrow> string \<Rightarrow> bool" where
  "like [] [] = True"
| "like [] (c # cs) = False"
| "like (p # ps) [] = (p = CHR ''%'' \<and> like ps [])"
| "like (p # ps) (c # cs) =
     (if p = CHR ''%'' then like ps (c # cs) \<or> like (p # ps) cs
      else if p = CHR ''_'' then like ps cs
      else if p = CHR 0x5C then (case ps of [] \<Rightarrow> False | q # qs \<Rightarrow> q = c \<and> like qs cs)
      else p = c \<and> like ps cs)"

definition pg_ilike :: "string \<Rightarrow> string \<Rightarrow> bool" where
  "pg_ilike pat s =
     like (map lower_char (map (\<lambda>c. if c = CHR ''*'' then CHR ''%'' else c) pat))
          (map lower_char s)"

fun passes :: "row \<Rightarrow> pg_filter \<Rightarrow> bool" where
  "passes rw (Eq col v) = (v \<noteq> JNull \<and> v \<noteq> JUndefined \<and> getp rw col = v)"
| "passes rw (Ilike col pat) = (case getp rw col of JStr s \<Rightarrow> pg_ilike pat s | _ \<Rightarrow> False)"
| "passes rw (Gte col v) =
     (case getp rw col of
        JNum a \<Rightarrow> (case v of JNum b \<Rightarrow> b \<le> a | _ \<Rightarrow> False)
      | _ \<Rightarrow> False)"
| "passes rw (Lte col v) =
     (case getp rw col of
        JNum a \<Rightarrow> (case v of JNum b \<Rightarrow> a \<le> b | _ \<Rightarrow> False)
      | _ \<Rightarrow> False)"

definition order_key :: "bool \<Rightarrow> jsval \<Rightarrow> nat \<times> int" where
  "order_key ascending v =
     (case v of
        JNum n \<Rightarrow> (if ascending then (0, n) else (1, - n))
      | _ \<Rightarrow> (if ascending then (1, 0) else (0, 0)))"

definition apply_order :: "(string \<times> bool) list \<Rightarrow> row list \<Rightarrow> row list" where
  "apply_order keys rows =
     foldr (\<lambda>(col, ascending) rs. sort_key (\<lambda>rw. order_key ascending (getp rw col)) rs)
       keys rows"

definition apply_limit :: "jsval option \<Rightarrow> row list \<Rightarrow> row list" where
  "apply_limit l rows =
     (case l of
        None \<Rightarrow> rows
      | Some v \<Rightarrow> (case v of JNum n \<Rightarrow> take (nat n) rows | _ \<Rightarrow> []))"

definition project :: "string list \<Rightarrow> row \<Rightarrow> row" where
  "project cols rw =
     (if cols = [''*''] then rw
      else map (\<lambda>c. (c, getp rw c)) (filter (\<lambda>c. has_key c rw) cols))"

definition select_rows :: "query \<Rightarrow> row list \<Rightarrow> row list" where
  "select_rows q rows =
     map (project (columns q))
       (apply_limit (limit_n q)
         (apply_order (order_by q)
           (filter (\<lambda>rw. list_all (passes rw) (filters q)) rows)))"

definition table_store :: "(string \<Rightarrow> row list) \<Rightarrow> store" where
  "table_store tables q =
     (let rows = select_rows q (tables (table q))
      in if single_row q
         then (case rows of
                 [rw] \<Rightarrow> Inr \<lparr>resp_data = JObj rw, resp_error = None\<rparr>
               | _ \<Rightarrow>
                 Inr \<lparr>resp_data = JNull,
                      resp_error = Some ''JSON object requested, multiple (or no) rows returned''\<rparr>)
         else Inr \<lparr>resp_data = JArr (map JObj rows), resp_error = None\<rparr>)"

text \<open>A store whose every query reports the error \<open>msg\<close>.\<close>

definition failing_store :: "string \<Rightarrow> store" where
  "failing_store msg q = Inr \<lparr>resp_data = JNull, resp_error = Some msg\<rparr>"

section \<open>The recommended-courses policy in the specification's words\<close>

text \<open>
  The region matches case-insensitively as a substring; the price lies in the tier's
  bracket, bounds included; the matching courses are ordered by descending rating and
  truncated.
\<close>

definition region_matches :: "string \<Rightarrow> row \<Rightarrow> bool" where
  "region_matches rg rw =
     (case getp rw ''region'' of
        JStr s \<Rightarrow> sublist (map lower_char rg) (map lower_char s)
      | _ \<Rightarrow> False)"

definition tier_bracket :: "string \<Rightarrow> int \<Rightarrow> bool" where
  "tier_bracket tier price =
     (if tier = ''budget'' then price \<le> 15000
      else if tier = ''standard'' then 15000 \<le> price \<and> price \<le> 35000
      else if tier = ''luxury'' then 35000 \<le> price
      else False)"

definition price_in_tier :: "string \<Rightarrow> row \<Rightarrow> bool" where
  "price_in_tier tier rw =
     (case getp rw ''green_fee_standard_cents'' of
        JNum price \<Rightarrow> tier_bracket tier price
      | _ \<Rightarrow> False)"

definition by_descending_rating :: "row list \<Rightarrow> row list" where
  "by_descending_rating rows = sort_key (\<lambda>rw. order_key False (getp rw ''rating'')) rows"

definition recommended_selection :: "string \<Rightarrow> string \<Rightarrow> nat \<Rightarrow> row list \<Rightarrow> row list" where
  "recommended_selection rg tier n courses =
     take n (by_descending_rating
       (filter (\<lambda>rw. region_matches rg rw \<and> price_in_tier tier rw) courses))"

text \<open>The columns the recommended-courses lookup returns of each selected course.\<close>

definition recommended_columns :: "string list" where
  "recommended_columns =
     [''id'', ''name'', ''region'', ''course_type'', ''rating'', ''difficulty_level'',
      ''green_fee_standard_cents'', ''description'', ''features'']"

text \<open>The characters that are not literal in a pattern sent to the store.\<close>

definition pattern_chars :: "char set" where
  "pattern_chars = {CHR ''%'', CHR ''_'', CHR 0x5C, CHR ''*''}"

text \<open>Reading a property of a result's metadata: \<open>result.metadata?.k\<close>.\<close>

definition meta :: "ToolResult \<Rightarrow> string \<Rightarrow> jsval" where
  "meta res k = (case metadata res of None \<Rightarrow> JUndefined | Some m \<Rightarrow> getp m k)"

section \<open>Result envelopes and cache availability\<close>

text \<open>
  The two envelopes every handler writes the same way: \<open>{ success: false, error }\<close> and
  the cache hit \<open>{ success: true, data: cached, metadata: { cached: true } }\<close>.
\<close>

definition failure_result :: "message \<Rightarrow> ToolResult" where
  "failure_result m = \<lparr>success = False, data = JUndefined, error = Some m, metadata = None\<rparr>"

definition cached_result :: "jsval \<Rightarrow> ToolResult" where
  "cached_result v =
     \<lparr>success = True, data = v, error = None, metadata = Some [(''cached'', JBool True)]\<rparr>"

text \<open>
  The cache is disabled (switched off, or no URL configured) or its backend cannot be
  used (the client cannot be constructed, or the connection fails).
\<close>

definition cache_unavailable :: "environment \<Rightarrow> redis \<Rightarrow> bool" where
  "cache_unavailable env r =
     (\<not> ENABLE_CACHE env \<or> absent (REDIS_URL env) \<or> r = InitFails \<or> r = Unreachable)"



section \<open>Example worlds\<close>

text \<open>Concrete environments, clocks, stores and tables on which the theorems are run.\<close>

definition env_no_cache :: environment where
  "env_no_cache =
     \<lparr>NODE_ENV = ''production'', MCP_API_KEY = None, REDIS_URL = None,
      ENABLE_CACHE = True, CACHE_TTL_SECONDS = 300\<rparr>"

definition env_cache :: environment where
  "env_cache =
     \<lparr>NODE_ENV = ''production'', MCP_API_KEY = None,
      REDIS_URL = Some ''redis://localhost:6379'',
      ENABLE_CACHE = True, CACHE_TTL_SECONDS = 300\<rparr>"

definition env_secret :: environment where
  "env_secret =
     \<lparr>NODE_ENV = ''production'',
      MCP_API_KEY = Some ''0123456789abcdef0123456789abcdef'',
      REDIS_URL = None, ENABLE_CACHE = True, CACHE_TTL_SECONDS = 300\<rparr>"

definition clock_145 :: clock where
  "clock_145 k = 1000 + 145 * int k"


definition any_uuid :: "string \<Rightarrow> bool" where
  "any_uuid s = True"

definition empty_cache :: redis where
  "empty_cache = Live Map.empty"

definition course :: "string \<Rightarrow> string \<Rightarrow> int \<Rightarrow> int \<Rightarrow> row" where
  "course nm rg rating price =
     [(''name'', JStr nm), (''region'', JStr rg), (''rating'', JNum rating),
      (''green_fee_standard_cents'', JNum price)]"

definition demo_tables :: "string \<Rightarrow> row list" where
  "demo_tables t =
     (if t = ''golf_courses''
      then [course ''Tralee'' ''Southwest Ireland'' 46 9000,
            course ''Old Course'' ''Scotland'' 49 35000,
            course ''Lahinch'' ''West IRELAND'' 47 22000,
            course ''Ballybunion'' ''Southwest Ireland'' 48 15000]
      else [])"

text \<open>Validated parameter objects.\<close>

definition ireland_params :: obj where
  "ireland_params = [(''region'', JStr ''Ireland''), (''limit'', JNum 20)]"

definition budget_ireland :: "int \<Rightarrow> obj" where
  "budget_ireland l =
     [(''region'', JStr ''ireland''), (''budget_tier'', JStr ''budget''), (''limit'', JNum l)]"


definition operator_params :: obj where
  "operator_params =
     [(''operator_id'', JStr ''3e9dbbd1-5b80-4619-a80c-3ecd4a7be8f1''),
      (''supplier_id'', JStr ''7b0c2a4e-1d3f-4a5b-8c6d-9e0f1a2b3c4d'')]"

text \<open>The error response of \<open>failing_store msg\<close>.\<close>

definition error_response :: "string \<Rightarrow> store_response" where
  "error_response msg = \<lparr>resp_data = JNull, resp_error = Some msg\<rparr>"

section \<open>Properties\<close>

subsection \<open>Registry\<close>

lemma tools_names:
  "map name tools =
     [''search_courses'', ''get_course_details'', ''get_recommended_courses'',
      ''find_course_by_name'', ''search_accommodations'', ''get_accommodation_details'',
      ''get_golf_resorts'', ''get_supplier_rates'', ''has_negotiated_rate'',
      ''get_operator_suppliers'']"
  by (simp add: tools_def)

lemma distinct_tool_names: "distinct (map name tools)"
  unfolding tools_names by simp

lemma find_distinct:
  "distinct (map f xs) \<Longrightarrow> x \<in> set xs \<Longrightarrow> find (\<lambda>t. f t = f x) xs = Some x"
  by (induction xs) auto

lemma getTool_unknown: "nm \<notin> set (map name tools) \<Longrightarrow> getTool nm = None"
  unfolding getTool_def by (auto simp: find_None_iff)

lemma getTool_does_not_exist: "getTool ''does_not_exist'' = None"
  by (rule getTool_unknown) (simp add: tools_names)

text \<open>
  Claim C9. Looking a registered name up returns exactly the definition registered under
  it, a name that is not registered is not found, and the catalogue lists the entries
  \<open>{name, description, inputSchema}\<close> of the tools in registration order.
\<close>

theorem registry_lookup_and_order:
  "(\<forall>t \<in> set tools. getTool (name t) = Some t) \<and>
   (\<forall>nm. nm \<notin> set (map name tools) \<longrightarrow> getTool nm = None) \<and>
   length listTools = length tools \<and>
   (\<forall>i < length tools.
      listTools ! i = (name (tools ! i), description (tools ! i), inputSchema (tools ! i))) \<and>
   map fst listTools =
     [''search_courses'', ''get_course_details'', ''get_recommended_courses'',
      ''find_course_by_name'', ''search_accommodations'', ''get_accommodation_details'',
      ''get_golf_resorts'', ''get_supplier_rates'', ''has_negotiated_rate'',
      ''get_operator_suppliers'']"
proof (intro conjI)
  show "\<forall>t \<in> set tools. getTool (name t) = Some t"
    unfolding getTool_def using find_distinct[OF distinct_tool_names] by blast
  show "\<forall>nm. nm \<notin> set (map name tools) \<longrightarrow> getTool nm = None"
    using getTool_unknown by blast
  show "length listTools = length tools"
    by (simp add: listTools_def)
  show "\<forall>i < length tools.
      listTools ! i = (name (tools ! i), description (tools ! i), inputSchema (tools ! i))"
    by (simp add: listTools_def)
  show "map fst listTools =
     [''search_courses'', ''get_course_details'', ''get_recommended_courses'',
      ''find_course_by_name'', ''search_accommodations'', ''get_accommodation_details'',
      ''get_golf_resorts'', ''get_supplier_rates'', ''has_negotiated_rate'',
      ''get_operator_suppliers'']"
    using tools_names by (simp add: listTools_def comp_def)
qed

theorem registry_lookup_and_order_witness:
  "tools ! 8 \<in> set tools \<and>
   getTool ''has_negotiated_rate'' = Some (tools ! 8) \<and>
   inputSchema (tools ! 8) = HasNegotiatedRateSchema \<and>
   ''does_not_exist'' \<notin> set (map name tools) \<and>
   getTool ''does_not_exist'' = None \<and>
   (8::nat) < length tools \<and>
   fst (listTools ! 8) = ''has_negotiated_rate''"
proof -
  have len: "(8::nat) < length tools" by (simp add: tools_def)
  then have mem: "tools ! 8 \<in> set tools" by (rule nth_mem)
  have nm: "name (tools ! 8) = ''has_negotiated_rate''" by (simp add: tools_def)
  have sch: "inputSchema (tools ! 8) = HasNegotiatedRateSchema" by (simp add: tools_def)
  have unk: "''does_not_exist'' \<notin> set (map name tools)" by (simp add: tools_names)
  from registry_lookup_and_order mem nm
  have 1: "getTool ''has_negotiated_rate'' = Some (tools ! 8)" by metis
  from registry_lookup_and_order unk
  have 2: "getTool ''does_not_exist'' = None" by blast
  from registry_lookup_and_order len nm
  have 3: "fst (listTools ! 8) = ''has_negotiated_rate''" by simp
  from len mem sch unk 1 2 3 show ?thesis by simp
qed

subsection \<open>Authentication\<close>

lemma post_tool_unknown:
  "getTool nm = None \<Longrightarrow>
   post_tool uuid env db now nm b r =
     (\<lparr>status = 404,
       body = ResultBody
         \<lparr>success = False, data = JUndefined,
          error = Some (Text (''Tool '' @ [CHR 0x27] @ nm @ [CHR 0x27] @ '' not found'')),
          metadata = None\<rparr>\<rparr>, r)"
  by (simp add: post_tool_def)

text \<open>
  Claim C7. On the authenticated tool route: with no secret configured the request goes
  to the route's handler whatever its header; with a secret configured, a request
  without a \<open>Bearer\<close> authorization header is answered 401 and one whose bearer token
  differs from the secret 403, both without the handler running (the response and the
  unchanged cache backend do not depend on the tool, the body or the store), and a
  request bearing the exact secret goes to the handler.
\<close>

theorem auth_policy:
  "(absent (MCP_API_KEY env) \<longrightarrow>
      api_tools_route uuid env db now h tn b r = post_tool uuid env db now tn b r) \<and>
   (MCP_API_KEY env = Some k \<and> k \<noteq> [] \<longrightarrow>
      ((h = None \<or> (\<exists>s. h = Some s \<and> \<not> prefix ''Bearer '' s)) \<longrightarrow>
         api_tools_route uuid env db now h tn b r =
           (\<lparr>status = 401, body = ErrorBody ''Missing or invalid authorization header''\<rparr>, r)) \<and>
      (\<forall>tok. h = Some (''Bearer '' @ tok) \<and> tok \<noteq> k \<longrightarrow>
         api_tools_route uuid env db now h tn b r =
           (\<lparr>status = 403, body = ErrorBody ''Invalid API key''\<rparr>, r)) \<and>
      (h = Some (''Bearer '' @ k) \<longrightarrow>
         api_tools_route uuid env db now h tn b r = post_tool uuid env db now tn b r))"
  by (auto simp: api_tools_route_def authMiddleware_def Let_def split: option.splits)

theorem auth_policy_witness:
  "absent (MCP_API_KEY env_no_cache) \<and>
   status (fst (api_tools_route any_uuid env_no_cache (failing_store ''down'') clock_145 None
      ''does_not_exist'' (JObj []) Unreachable)) = 404 \<and>
   MCP_API_KEY env_secret = Some ''0123456789abcdef0123456789abcdef'' \<and>
   api_tools_route any_uuid env_secret (failing_store ''down'') clock_145 None
      ''does_not_exist'' (JObj []) Unreachable =
     (\<lparr>status = 401, body = ErrorBody ''Missing or invalid authorization header''\<rparr>,
      Unreachable) \<and>
   api_tools_route any_uuid env_secret (failing_store ''down'') clock_145 (Some ''Basic abc'')
      ''does_not_exist'' (JObj []) Unreachable =
     (\<lparr>status = 401, body = ErrorBody ''Missing or invalid authorization header''\<rparr>,
      Unreachable) \<and>
   api_tools_route any_uuid env_secret (failing_store ''down'') clock_145
      (Some ''Bearer wrong'') ''does_not_exist'' (JObj []) Unreachable =
     (\<lparr>status = 403, body = ErrorBody ''Invalid API key''\<rparr>, Unreachable) \<and>
   status (fst (api_tools_route any_uuid env_secret (failing_store ''down'') clock_145
      (Some ''Bearer 0123456789abcdef0123456789abcdef'')
      ''does_not_exist'' (JObj []) Unreachable)) = 404"
proof -
  let ?k = "''0123456789abcdef0123456789abcdef''"
  let ?db = "failing_store ''down''"
  let ?tn = "''does_not_exist''"
  have off: "absent (MCP_API_KEY env_no_cache)"
    by (simp add: env_no_cache_def)
  have key: "MCP_API_KEY env_secret = Some ?k \<and> ?k \<noteq> []"
    by (simp add: env_secret_def)
  note nf = post_tool_unknown[OF getTool_does_not_exist]
  from auth_policy[of env_no_cache any_uuid ?db clock_145 None ?tn "JObj []" Unreachable ?k] off
  have 1: "status (fst (api_tools_route any_uuid env_no_cache ?db clock_145 None
      ?tn (JObj []) Unreachable)) = 404"
    by (simp add: nf)
  from auth_policy[of env_secret any_uuid ?db clock_145 None ?tn "JObj []" Unreachable ?k] key
  have 2: "api_tools_route any_uuid env_secret ?db clock_145 None ?tn (JObj []) Unreachable =
     (\<lparr>status = 401, body = ErrorBody ''Missing or invalid authorization header''\<rparr>,
      Unreachable)"
    by simp
  from auth_policy[of env_secret any_uuid ?db clock_145 "Some ''Basic abc''" ?tn "JObj []"
      Unreachable ?k] key
  have 3: "api_tools_route any_uuid env_secret ?db clock_145 (Some ''Basic abc'') ?tn (JObj [])
      Unreachable =
     (\<lparr>status = 401, body = ErrorBody ''Missing or invalid authorization header''\<rparr>,
      Unreachable)"
    by simp
  from auth_policy[of env_secret any_uuid ?db clock_145 "Some ''Bearer wrong''" ?tn "JObj []"
      Unreachable ?k] key
  have 4: "api_tools_route any_uuid env_secret ?db clock_145 (Some ''Bearer wrong'') ?tn
      (JObj []) Unreachable =
     (\<lparr>status = 403, body = ErrorBody ''Invalid API key''\<rparr>, Unreachable)"
    by simp
  from auth_policy[of env_secret any_uuid ?db clock_145
      "Some ''Bearer 0123456789abcdef0123456789abcdef''" ?tn "JObj []" Unreachable ?k] key
  have 5: "status (fst (api_tools_route any_uuid env_secret ?db clock_145
      (Some ''Bearer 0123456789abcdef0123456789abcdef'') ?tn (JObj []) Unreachable)) = 404"
    by (simp add: nf)
  from off key 1 2 3 4 5 show ?thesis by simp
qed

subsection \<open>Transports\<close>

lemma getCached_off:
  "\<not> ENABLE_CACHE env \<or> absent (REDIS_URL env) \<or> r = InitFails \<or> r = Unreachable \<Longrightarrow>
   getCached env r k = JNull"
  by (auto simp: getCached_def getRedisClient_def split: redis.splits)


lemma call_tool_unknown:
  "getTool nm = None \<Longrightarrow>
   call_tool uuid env db now nm args r =
     (\<lparr>content =
         \<lparr>success = False, data = JUndefined,
          error = Some (Text (''Unknown tool: '' @ nm)), metadata = None\<rparr>,
       isError = True\<rparr>, r)"
  by (simp add: call_tool_def)

text \<open>
  Claim C6. A tool name that is not registered is reported to the caller by both
  transports, each returning normally with the cache backend untouched: the handler of
  the REST route answers 404, and the session protocol's handler replies with
  \<open>success: false\<close>, the error flag set, and an error message that contains the requested
  name.
\<close>

theorem unknown_tool_reported:
  "getTool nm = None \<Longrightarrow>
   post_tool uuid env db now nm b r =
     (\<lparr>status = 404,
       body = ResultBody
         \<lparr>success = False, data = JUndefined,
          error = Some (Text (''Tool '' @ [CHR 0x27] @ nm @ [CHR 0x27] @ '' not found'')),
          metadata = None\<rparr>\<rparr>, r) \<and>
   call_tool uuid env db now nm args r =
     (\<lparr>content =
         \<lparr>success = False, data = JUndefined,
          error = Some (Text (''Unknown tool: '' @ nm)), metadata = None\<rparr>,
       isError = True\<rparr>, r) \<and>
   sublist nm (''Unknown tool: '' @ nm)"
  using post_tool_unknown call_tool_unknown sublist_append_leftI by blast

theorem unknown_tool_reported_witness:
  "getTool ''does_not_exist'' = None \<and>
   status (fst (post_tool any_uuid env_no_cache (failing_store ''down'') clock_145
      ''does_not_exist'' (JObj []) Unreachable)) = 404 \<and>
   call_tool any_uuid env_no_cache (failing_store ''down'') clock_145
      ''does_not_exist'' (JObj []) Unreachable =
     (\<lparr>content =
         \<lparr>success = False, data = JUndefined,
          error = Some (Text ''Unknown tool: does_not_exist''), metadata = None\<rparr>,
       isError = True\<rparr>, Unreachable) \<and>
   sublist ''does_not_exist'' ''Unknown tool: does_not_exist''"
  using unknown_tool_reported[OF getTool_does_not_exist, of any_uuid env_no_cache
      "failing_store ''down''" clock_145 "JObj []" Unreachable "JObj []"]
    getTool_does_not_exist
  by simp

lemma getTool_find_course: "getTool ''find_course_by_name'' = Some (tools ! 3)"
  by (simp add: getTool_def tools_def)
lemma getTool_resorts: "getTool ''get_golf_resorts'' = Some (tools ! 6)"
  by (simp add: getTool_def tools_def)
lemma getTool_suppliers: "getTool ''get_operator_suppliers'' = Some (tools ! 9)"
  by (simp add: getTool_def tools_def)

lemma plain_schemas:
  "\<exists>ob. inputSchema (tools ! 3) = PlainObject ob"
  "\<exists>ob. inputSchema (tools ! 6) = PlainObject ob"
  "\<exists>ob. inputSchema (tools ! 9) = PlainObject ob"
  by (simp_all add: tools_def)

lemma plain_iff:
  "\<forall>t \<in> set tools. (\<exists>ob. inputSchema t = PlainObject ob) \<longleftrightarrow>
      name t \<in> {''find_course_by_name'', ''get_golf_resorts'', ''get_operator_suppliers''}"
  by (simp add: tools_def SearchCoursesSchema_def GetCourseDetailsSchema_def
      GetRecommendedCoursesSchema_def SearchAccommodationsSchema_def
      GetAccommodationDetailsSchema_def GetSupplierRatesSchema_def HasNegotiatedRateSchema_def)

lemma post_tool_plain:
  "getTool nm = Some t \<Longrightarrow> inputSchema t = PlainObject ob \<Longrightarrow>
   post_tool uuid env db now nm b r =
     (\<lparr>status = 500,
       body = ResultBody
         \<lparr>success = False, data = JUndefined,
          error = Some (Text ''tool.inputSchema.parse is not a function''),
          metadata = None\<rparr>\<rparr>, r)"
  by (simp add: post_tool_def)

lemma call_tool_plain:
  "getTool nm = Some t \<Longrightarrow> inputSchema t = PlainObject ob \<Longrightarrow>
   call_tool uuid env db now nm args r =
     (\<lparr>content =
         \<lparr>success = False, data = JUndefined,
          error = Some (Text ''tool.inputSchema.parse is not a function''),
          metadata = None\<rparr>,
       isError = True\<rparr>, r)"
  by (simp add: call_tool_def)

text \<open>
  Claim C2. The three tools registered with a plain object as \<open>inputSchema\<close> fail on
  every invocation, whatever the arguments: \<open>parse\<close> throws, so the REST handler answers
  500 and the session protocol's handler replies \<open>success: false\<close>. The tool's handler
  is not invoked: the outcome is the same for every store, clock and environment, and
  the cache backend is unchanged.
\<close>

theorem plain_schema_tools_always_fail:
  "nm \<in> {''find_course_by_name'', ''get_golf_resorts'', ''get_operator_suppliers''} \<Longrightarrow>
   (\<exists>t ob. getTool nm = Some t \<and> inputSchema t = PlainObject ob) \<and>
   post_tool uuid env db now nm b r =
     (\<lparr>status = 500,
       body = ResultBody
         \<lparr>success = False, data = JUndefined,
          error = Some (Text ''tool.inputSchema.parse is not a function''),
          metadata = None\<rparr>\<rparr>, r) \<and>
   call_tool uuid env db now nm args r =
     (\<lparr>content =
         \<lparr>success = False, data = JUndefined,
          error = Some (Text ''tool.inputSchema.parse is not a function''),
          metadata = None\<rparr>,
       isError = True\<rparr>, r)"
  using plain_schemas getTool_find_course getTool_resorts getTool_suppliers
  by (auto simp: post_tool_plain call_tool_plain)


theorem plain_schema_tools_always_fail_witness:
  "''get_operator_suppliers'' \<in>
     {''find_course_by_name'', ''get_golf_resorts'', ''get_operator_suppliers''} \<and>
   status (fst (post_tool any_uuid env_no_cache (table_store demo_tables) clock_145
      ''get_operator_suppliers''
      (JObj [(''operator_id'', JStr ''3e9dbbd1-5b80-4619-a80c-3ecd4a7be8f1'')]) empty_cache)) = 500 \<and>
   success (content (fst (call_tool any_uuid env_no_cache (table_store demo_tables) clock_145
      ''get_operator_suppliers''
      (JObj [(''operatorId'', JStr ''3e9dbbd1-5b80-4619-a80c-3ecd4a7be8f1'')]) empty_cache))) = False"
proof -
  have m: "''get_operator_suppliers'' \<in>
     {''find_course_by_name'', ''get_golf_resorts'', ''get_operator_suppliers''}" by simp
  from plain_schema_tools_always_fail[OF m, of any_uuid env_no_cache "table_store demo_tables"
      clock_145 "JObj [(''operator_id'', JStr ''3e9dbbd1-5b80-4619-a80c-3ecd4a7be8f1'')]"
      empty_cache "JObj [(''operatorId'', JStr ''3e9dbbd1-5b80-4619-a80c-3ecd4a7be8f1'')]"] m
  show ?thesis by simp
qed

lemma post_tool_cases:
  "post_tool uuid env db now nm b r =
     (case getTool nm of
        None \<Rightarrow>
          (\<lparr>status = 404,
            body = ResultBody
              \<lparr>success = False, data = JUndefined,
               error = Some (Text (''Tool '' @ [CHR 0x27] @ nm @ [CHR 0x27] @ '' not found'')),
               metadata = None\<rparr>\<rparr>, r)
      | Some tool \<Rightarrow>
          (case parse uuid (inputSchema tool) b of
             Inl e \<Rightarrow>
               (\<lparr>status = 500,
                 body = ResultBody
                   \<lparr>success = False, data = JUndefined,
                    error = Some (message_or_unknown e), metadata = None\<rparr>\<rparr>, r)
           | Inr v \<Rightarrow>
               (\<lparr>status = 200, body = ResultBody (fst (execute tool env db now v r))\<rparr>,
                snd (execute tool env db now v r))))"
  by (simp add: post_tool_def split: option.splits sum.splits prod.splits)

text \<open>
  Claim C1, as amended. The handler of the REST tool route answers 404 exactly when the
  tool name is not registered, 500 exactly when \<open>parse\<close> of the tool's schema throws on
  the body (a validation failure, or a schema that is no validator), with
  \<open>success: false\<close> and the thrown message as body, and otherwise 200 with the
  \<open>ToolResult\<close> of the tool's handler as body, unchanged, whether it reports success or
  failure. It answers nothing else.
\<close>

theorem post_tool_status:
  "status (fst (post_tool uuid env db now nm b r)) \<in> {200, 404, 500} \<and>
   (status (fst (post_tool uuid env db now nm b r)) = 404 \<longleftrightarrow> getTool nm = None) \<and>
   (status (fst (post_tool uuid env db now nm b r)) = 500 \<longleftrightarrow>
      (\<exists>t e. getTool nm = Some t \<and> parse uuid (inputSchema t) b = Inl e)) \<and>
   (\<forall>t e. getTool nm = Some t \<and> parse uuid (inputSchema t) b = Inl e \<longrightarrow>
      post_tool uuid env db now nm b r =
        (\<lparr>status = 500,
          body = ResultBody
            \<lparr>success = False, data = JUndefined,
             error = Some (message_or_unknown e), metadata = None\<rparr>\<rparr>, r)) \<and>
   (\<forall>t v. getTool nm = Some t \<and> parse uuid (inputSchema t) b = Inr v \<longrightarrow>
      post_tool uuid env db now nm b r =
        (\<lparr>status = 200, body = ResultBody (fst (execute t env db now v r))\<rparr>,
         snd (execute t env db now v r)))"
  unfolding post_tool_cases
  by (auto split: option.splits sum.splits)

lemma getTool_search_courses: "getTool ''search_courses'' = Some (tools ! 0)"
  by (simp add: getTool_def tools_def)

lemma getTool_recommended: "getTool ''get_recommended_courses'' = Some (tools ! 2)"
  by (simp add: getTool_def tools_def)

lemma tools_0: "inputSchema (tools ! 0) = SearchCoursesSchema" "execute (tools ! 0) = searchCourses"
  by (simp_all add: tools_def)

lemma tools_2: "inputSchema (tools ! 2) = GetRecommendedCoursesSchema"
  "execute (tools ! 2) = getRecommendedCourses"
  by (simp_all add: tools_def)

lemma parse_search_ireland:
  "parse uuid SearchCoursesSchema (JObj [(''region'', JStr ''Ireland'')]) =
     Inr [(''region'', JStr ''Ireland''), (''limit'', JNum 20)]"
  by (simp add: SearchCoursesSchema_def zod_parse_def getp_def)

lemma parse_recommended_empty:
  "parse uuid GetRecommendedCoursesSchema (JObj []) =
     Inl (Error (ZodIssues
       [ZodIssue [''region''] ''invalid_type'', ZodIssue [''budget_tier''] ''invalid_type'']))"
  by (simp add: GetRecommendedCoursesSchema_def zod_parse_def getp_def)

lemma searchCourses_db_error:
  "\<not> truthy (getCached env r (searchCourses_cacheKey ps)) \<Longrightarrow>
   db (searchCourses_query ps) = Inr resp \<Longrightarrow> resp_error resp = Some msg \<Longrightarrow>
   searchCourses env db now ps r =
     (\<lparr>success = False, data = JUndefined,
       error = Some (Text (''Database error: '' @ msg)), metadata = None\<rparr>, r)"
  by (simp add: searchCourses_def Let_def)

text \<open>
  Claim C1 as stated fails: \<open>get_recommended_courses\<close> is registered, the empty body
  fails its schema (two required properties are missing), and the REST handler answers
  500, not 200.
\<close>

theorem validation_failure_is_500:
  "getTool ''get_recommended_courses'' = Some (tools ! 2) \<and>
   parse any_uuid (inputSchema (tools ! 2)) (JObj []) =
     Inl (Error (ZodIssues
       [ZodIssue [''region''] ''invalid_type'', ZodIssue [''budget_tier''] ''invalid_type''])) \<and>
   status (fst (post_tool any_uuid env_no_cache (table_store demo_tables) clock_145
      ''get_recommended_courses'' (JObj []) empty_cache)) = 500"
  by (simp add: post_tool_cases getTool_recommended tools_2 parse_recommended_empty)

theorem post_tool_status_witness:
  "getTool ''search_courses'' = Some (tools ! 0) \<and>
   parse any_uuid (inputSchema (tools ! 0)) (JObj [(''region'', JStr ''Ireland'')]) =
     Inr [(''region'', JStr ''Ireland''), (''limit'', JNum 20)] \<and>
   post_tool any_uuid env_no_cache (failing_store ''connection refused'') clock_145
      ''search_courses'' (JObj [(''region'', JStr ''Ireland'')]) empty_cache =
     (\<lparr>status = 200,
       body = ResultBody
         \<lparr>success = False, data = JUndefined,
          error = Some (Text ''Database error: connection refused''), metadata = None\<rparr>\<rparr>,
      empty_cache) \<and>
   getTool ''get_recommended_courses'' = Some (tools ! 2) \<and>
   post_tool any_uuid env_no_cache (failing_store ''connection refused'') clock_145
      ''get_recommended_courses'' (JObj []) empty_cache =
     (\<lparr>status = 500,
       body = ResultBody
         \<lparr>success = False, data = JUndefined,
          error = Some (ZodIssues
            [ZodIssue [''region''] ''invalid_type'', ZodIssue [''budget_tier''] ''invalid_type'']),
          metadata = None\<rparr>\<rparr>, empty_cache)"
proof -
  let ?db = "failing_store ''connection refused''"
  let ?b = "JObj [(''region'', JStr ''Ireland'')]"
  let ?v = "[(''region'', JStr ''Ireland''), (''limit'', JNum 20)]"
  have p: "parse any_uuid (inputSchema (tools ! 0)) ?b = Inr ?v"
    by (simp add: tools_0 parse_search_ireland)
  have q: "parse any_uuid (inputSchema (tools ! 2)) (JObj []) =
     Inl (Error (ZodIssues
       [ZodIssue [''region''] ''invalid_type'', ZodIssue [''budget_tier''] ''invalid_type'']))"
    by (simp add: tools_2 parse_recommended_empty)
  have off: "getCached env_no_cache empty_cache (searchCourses_cacheKey ?v) = JNull"
    by (rule getCached_off) (simp add: env_no_cache_def)
  have run: "searchCourses env_no_cache ?db clock_145 ?v empty_cache =
     (\<lparr>success = False, data = JUndefined,
       error = Some (Text (''Database error: '' @ ''connection refused'')), metadata = None\<rparr>,
      empty_cache)"
    by (rule searchCourses_db_error[where resp = "\<lparr>resp_data = JNull, resp_error = Some ''connection refused''\<rparr>"])
       (simp_all add: off failing_store_def)
  from post_tool_status[of any_uuid env_no_cache ?db clock_145 "''search_courses''" ?b empty_cache]
    getTool_search_courses p
  have 1: "post_tool any_uuid env_no_cache ?db clock_145 ''search_courses'' ?b empty_cache =
     (\<lparr>status = 200, body = ResultBody (fst (execute (tools ! 0) env_no_cache ?db clock_145 ?v empty_cache))\<rparr>,
         snd (execute (tools ! 0) env_no_cache ?db clock_145 ?v empty_cache))"
    by blast
  from post_tool_status[of any_uuid env_no_cache ?db clock_145 "''get_recommended_courses''"
      "JObj []" empty_cache] getTool_recommended q
  have 2: "post_tool any_uuid env_no_cache ?db clock_145 ''get_recommended_courses'' (JObj [])
      empty_cache =
     (\<lparr>status = 500,
       body = ResultBody
         \<lparr>success = False, data = JUndefined,
          error = Some (message_or_unknown (Error (ZodIssues
            [ZodIssue [''region''] ''invalid_type'', ZodIssue [''budget_tier''] ''invalid_type'']))),
          metadata = None\<rparr>\<rparr>, empty_cache)"
    by blast
  from 1 2 p run getTool_search_courses getTool_recommended show ?thesis
    by (simp add: tools_0)
qed

subsection \<open>Handlers\<close>

lemma getCached_unavailable: "cache_unavailable env r \<Longrightarrow> getCached env r k = JNull"
  unfolding cache_unavailable_def by (rule getCached_off)


lemma searchCourses_hit:
  "truthy (getCached env r (searchCourses_cacheKey ps)) \<Longrightarrow>
   searchCourses env db now ps r = (cached_result (getCached env r (searchCourses_cacheKey ps)), r)"
  by (simp add: searchCourses_def cached_result_def Let_def)


lemma searchCourses_duration:
  "meta (fst (searchCourses env db now ps r)) ''duration_ms'' =
     (if success (fst (searchCourses env db now ps r)) \<and> meta (fst (searchCourses env db now ps r)) ''cached'' = JUndefined
      then JNum (now 1 - now 0) else JUndefined)"
  by (simp add: searchCourses_def Let_def meta_def getp_def split: sum.splits option.splits)



lemma getCourseDetails_duration:
  "meta (fst (getCourseDetails env db now ps r)) ''duration_ms'' =
     (if success (fst (getCourseDetails env db now ps r)) \<and> meta (fst (getCourseDetails env db now ps r)) ''cached'' = JUndefined
      then JNum (now 1 - now 0) else JUndefined)"
  by (simp add: getCourseDetails_def Let_def meta_def getp_def split: sum.splits option.splits)



lemma getRecommendedCourses_duration:
  "meta (fst (getRecommendedCourses env db now ps r)) ''duration_ms'' =
     (if success (fst (getRecommendedCourses env db now ps r)) \<and> meta (fst (getRecommendedCourses env db now ps r)) ''cached'' = JUndefined
      then JNum (now 1 - now 0) else JUndefined)"
  by (simp add: getRecommendedCourses_def Let_def meta_def getp_def split: sum.splits option.splits)



lemma searchAccommodations_duration:
  "meta (fst (searchAccommodations env db now ps r)) ''duration_ms'' =
     (if success (fst (searchAccommodations env db now ps r)) \<and> meta (fst (searchAccommodations env db now ps r)) ''cached'' = JUndefined
      then JNum (now 1 - now 0) else JUndefined)"
  by (simp add: searchAccommodations_def Let_def meta_def getp_def split: sum.splits option.splits)



lemma getAccommodationDetails_duration:
  "meta (fst (getAccommodationDetails env db now ps r)) ''duration_ms'' =
     (if success (fst (getAccommodationDetails env db now ps r)) \<and> meta (fst (getAccommodationDetails env db now ps r)) ''cached'' = JUndefined
      then JNum (now 1 - now 0) else JUndefined)"
  by (simp add: getAccommodationDetails_def Let_def meta_def getp_def split: sum.splits option.splits)



lemma getGolfResorts_duration:
  "meta (fst (getGolfResorts env db now ps r)) ''duration_ms'' =
     (if success (fst (getGolfResorts env db now ps r)) \<and> meta (fst (getGolfResorts env db now ps r)) ''cached'' = JUndefined
      then JNum (now 1 - now 0) else JUndefined)"
  by (simp add: getGolfResorts_def Let_def meta_def getp_def split: sum.splits option.splits)



lemma getSupplierRates_duration:
  "meta (fst (getSupplierRates env db now ps r)) ''duration_ms'' =
     (if success (fst (getSupplierRates env db now ps r)) \<and> meta (fst (getSupplierRates env db now ps r)) ''cached'' = JUndefined
      then JNum (now 1 - now 0) else JUndefined)"
  by (simp add: getSupplierRates_def Let_def meta_def getp_def split: sum.splits option.splits)



lemma getOperatorSuppliers_duration:
  "meta (fst (getOperatorSuppliers env db ps r)) ''duration_ms'' = JUndefined"
  by (simp add: getOperatorSuppliers_def Let_def meta_def getp_def split: sum.splits option.splits)

lemma findCourseByName_duration:
  "meta (findCourseByName db now nm) ''duration_ms'' =
     (if success (findCourseByName db now nm) then JNum (now 1 - now 0) else JUndefined)"
  by (simp add: findCourseByName_def Let_def meta_def getp_def split: sum.splits option.splits)

lemma findCourseByName_not_cached:
  "meta (findCourseByName db now nm) ''cached'' = JUndefined"
  by (simp add: findCourseByName_def Let_def meta_def getp_def split: sum.splits option.splits)

lemma hasNegotiatedRate_no_metadata: "metadata (hasNegotiatedRate db ps) = None"
  by (simp add: hasNegotiatedRate_def split: sum.splits)

lemma searchCourses_store_error:
  "\<not> truthy (getCached env r (searchCourses_cacheKey ps)) \<Longrightarrow>
   db (searchCourses_query ps) = Inr resp \<Longrightarrow> resp_error resp = Some msg \<Longrightarrow>
   searchCourses env db now ps r = (failure_result (Text (''Database error: '' @ msg)), r)"
  by (simp add: searchCourses_def failure_result_def Let_def)

lemma searchCourses_store_ok:
  "\<not> truthy (getCached env r (searchCourses_cacheKey ps)) \<Longrightarrow>
   db (searchCourses_query ps) = Inr resp \<Longrightarrow> resp_error resp = None \<Longrightarrow>
   searchCourses env db now ps r =
     (\<lparr>success = True, data = js_or (resp_data resp) (JArr []), error = None,
       metadata = Some [(''count'', js_or (opt_length (resp_data resp)) (JNum 0)), (''duration_ms'', JNum (now 1 - now 0))]\<rparr>,
      setCached env r (searchCourses_cacheKey ps) (resp_data resp) None)"
  by (simp add: searchCourses_def Let_def)

lemma getCourseDetails_store_error:
  "\<not> truthy (getCached env r (getCourseDetails_cacheKey ps)) \<Longrightarrow>
   db (getCourseDetails_query ps) = Inr resp \<Longrightarrow> resp_error resp = Some msg \<Longrightarrow>
   getCourseDetails env db now ps r = (failure_result (Text (''Course not found or database error: '' @ msg)), r)"
  by (simp add: getCourseDetails_def failure_result_def Let_def)

lemma getCourseDetails_store_ok:
  "\<not> truthy (getCached env r (getCourseDetails_cacheKey ps)) \<Longrightarrow>
   db (getCourseDetails_query ps) = Inr resp \<Longrightarrow> resp_error resp = None \<Longrightarrow>
   getCourseDetails env db now ps r =
     (\<lparr>success = True, data = resp_data resp, error = None,
       metadata = Some [(''duration_ms'', JNum (now 1 - now 0))]\<rparr>,
      setCached env r (getCourseDetails_cacheKey ps) (resp_data resp) None)"
  by (simp add: getCourseDetails_def Let_def)

lemma searchAccommodations_store_error:
  "\<not> truthy (getCached env r (searchAccommodations_cacheKey ps)) \<Longrightarrow>
   db (searchAccommodations_query ps) = Inr resp \<Longrightarrow> resp_error resp = Some msg \<Longrightarrow>
   searchAccommodations env db now ps r = (failure_result (Text (''Database error: '' @ msg)), r)"
  by (simp add: searchAccommodations_def failure_result_def Let_def)

lemma searchAccommodations_store_ok:
  "\<not> truthy (getCached env r (searchAccommodations_cacheKey ps)) \<Longrightarrow>
   db (searchAccommodations_query ps) = Inr resp \<Longrightarrow> resp_error resp = None \<Longrightarrow>
   searchAccommodations env db now ps r =
     (\<lparr>success = True, data = js_or (resp_data resp) (JArr []), error = None,
       metadata = Some [(''count'', js_or (opt_length (resp_data resp)) (JNum 0)), (''duration_ms'', JNum (now 1 - now 0))]\<rparr>,
      setCached env r (searchAccommodations_cacheKey ps) (resp_data resp) None)"
  by (simp add: searchAccommodations_def Let_def)

lemma getAccommodationDetails_store_error:
  "\<not> truthy (getCached env r (getAccommodationDetails_cacheKey ps)) \<Longrightarrow>
   db (getAccommodationDetails_query ps) = Inr resp \<Longrightarrow> resp_error resp = Some msg \<Longrightarrow>
   getAccommodationDetails env db now ps r = (failure_result (Text (''Accommodation not found or database error: '' @ msg)), r)"
  by (simp add: getAccommodationDetails_def failure_result_def Let_def)

lemma getAccommodationDetails_store_ok:
  "\<not> truthy (getCached env r (getAccommodationDetails_cacheKey ps)) \<Longrightarrow>
   db (getAccommodationDetails_query ps) = Inr resp \<Longrightarrow> resp_error resp = None \<Longrightarrow>
   getAccommodationDetails env db now ps r =
     (\<lparr>success = True, data = resp_data resp, error = None,
       metadata = Some [(''duration_ms'', JNum (now 1 - now 0))]\<rparr>,
      setCached env r (getAccommodationDetails_cacheKey ps) (resp_data resp) None)"
  by (simp add: getAccommodationDetails_def Let_def)

lemma getGolfResorts_store_error:
  "\<not> truthy (getCached env r (getGolfResorts_cacheKey ps)) \<Longrightarrow>
   db (getGolfResorts_query ps) = Inr resp \<Longrightarrow> resp_error resp = Some msg \<Longrightarrow>
   getGolfResorts env db now ps r = (failure_result (Text (''Database error: '' @ msg)), r)"
  by (simp add: getGolfResorts_def failure_result_def Let_def)

lemma getGolfResorts_store_ok:
  "\<not> truthy (getCached env r (getGolfResorts_cacheKey ps)) \<Longrightarrow>
   db (getGolfResorts_query ps) = Inr resp \<Longrightarrow> resp_error resp = None \<Longrightarrow>
   getGolfResorts env db now ps r =
     (\<lparr>success = True, data = js_or (resp_data resp) (JArr []), error = None,
       metadata = Some [(''count'', js_or (opt_length (resp_data resp)) (JNum 0)), (''duration_ms'', JNum (now 1 - now 0))]\<rparr>,
      setCached env r (getGolfResorts_cacheKey ps) (resp_data resp) None)"
  by (simp add: getGolfResorts_def Let_def)

lemma getSupplierRates_store_error:
  "\<not> truthy (getCached env r (getSupplierRates_cacheKey ps)) \<Longrightarrow>
   db (getSupplierRates_query ps) = Inr resp \<Longrightarrow> resp_error resp = Some msg \<Longrightarrow>
   getSupplierRates env db now ps r = (failure_result (Text (''Database error: '' @ msg)), r)"
  by (simp add: getSupplierRates_def failure_result_def Let_def)

lemma getSupplierRates_store_ok:
  "\<not> truthy (getCached env r (getSupplierRates_cacheKey ps)) \<Longrightarrow>
   db (getSupplierRates_query ps) = Inr resp \<Longrightarrow> resp_error resp = None \<Longrightarrow>
   getSupplierRates env db now ps r =
     (\<lparr>success = True, data = js_or (resp_data resp) (JArr []), error = None,
       metadata = Some [(''count'', js_or (opt_length (resp_data resp)) (JNum 0)), (''duration_ms'', JNum (now 1 - now 0))]\<rparr>,
      setCached env r (getSupplierRates_cacheKey ps) (resp_data resp) (Some 600))"
  by (simp add: getSupplierRates_def Let_def)

lemma getOperatorSuppliers_store_error:
  "\<not> truthy (getCached env r (getOperatorSuppliers_cacheKey ps)) \<Longrightarrow>
   db (getOperatorSuppliers_query ps) = Inr resp \<Longrightarrow> resp_error resp = Some msg \<Longrightarrow>
   getOperatorSuppliers env db ps r = (failure_result (Text (''Database error: '' @ msg)), r)"
  by (simp add: getOperatorSuppliers_def failure_result_def Let_def)

lemma getOperatorSuppliers_store_ok:
  "\<not> truthy (getCached env r (getOperatorSuppliers_cacheKey ps)) \<Longrightarrow>
   db (getOperatorSuppliers_query ps) = Inr resp \<Longrightarrow> resp_error resp = None \<Longrightarrow>
   getOperatorSuppliers env db ps r =
     (\<lparr>success = True, data = js_or (resp_data resp) (JArr []), error = None,
       metadata = Some [(''count'', js_or (opt_length (resp_data resp)) (JNum 0))]\<rparr>,
      setCached env r (getOperatorSuppliers_cacheKey ps) (resp_data resp) (Some 600))"
  by (simp add: getOperatorSuppliers_def Let_def)

lemma searchCourses_failure_no_metadata:
  "\<not> success (fst (searchCourses env db now ps r)) \<Longrightarrow> metadata (fst (searchCourses env db now ps r)) = None"
  by (cases "truthy (getCached env r (searchCourses_cacheKey ps))")
     (simp_all add: searchCourses_def Let_def split: sum.splits option.splits)

lemma searchCourses_cached_is_hit:
  "meta (fst (searchCourses env db now ps r)) ''cached'' \<noteq> JUndefined \<Longrightarrow>
   fst (searchCourses env db now ps r) = cached_result (data (fst (searchCourses env db now ps r)))"
  by (cases "truthy (getCached env r (searchCourses_cacheKey ps))")
     (auto simp: searchCourses_def Let_def meta_def getp_def cached_result_def
        split: sum.splits option.splits)

lemma getCourseDetails_failure_no_metadata:
  "\<not> success (fst (getCourseDetails env db now ps r)) \<Longrightarrow> metadata (fst (getCourseDetails env db now ps r)) = None"
  by (cases "truthy (getCached env r (getCourseDetails_cacheKey ps))")
     (simp_all add: getCourseDetails_def Let_def split: sum.splits option.splits)

lemma getCourseDetails_cached_is_hit:
  "meta (fst (getCourseDetails env db now ps r)) ''cached'' \<noteq> JUndefined \<Longrightarrow>
   fst (getCourseDetails env db now ps r) = cached_result (data (fst (getCourseDetails env db now ps r)))"
  by (cases "truthy (getCached env r (getCourseDetails_cacheKey ps))")
     (auto simp: getCourseDetails_def Let_def meta_def getp_def cached_result_def
        split: sum.splits option.splits)

lemma searchAccommodations_failure_no_metadata:
  "\<not> success (fst (searchAccommodations env db now ps r)) \<Longrightarrow> metadata (fst (searchAccommodations env db now ps r)) = None"
  by (cases "truthy (getCached env r (searchAccommodations_cacheKey ps))")
     (simp_all add: searchAccommodations_def Let_def split: sum.splits option.splits)

lemma searchAccommodations_cached_is_hit:
  "meta (fst (searchAccommodations env db now ps r)) ''cached'' \<noteq> JUndefined \<Longrightarrow>
   fst (searchAccommodations env db now ps r) = cached_result (data (fst (searchAccommodations env db now ps r)))"
  by (cases "truthy (getCached env r (searchAccommodations_cacheKey ps))")
     (auto simp: searchAccommodations_def Let_def meta_def getp_def cached_result_def
        split: sum.splits option.splits)

lemma getAccommodationDetails_failure_no_metadata:
  "\<not> success (fst (getAccommodationDetails env db now ps r)) \<Longrightarrow> metadata (fst (getAccommodationDetails env db now ps r)) = None"
  by (cases "truthy (getCached env r (getAccommodationDetails_cacheKey ps))")
     (simp_all add: getAccommodationDetails_def Let_def split: sum.splits option.splits)

lemma getAccommodationDetails_cached_is_hit:
  "meta (fst (getAccommodationDetails env db now ps r)) ''cached'' \<noteq> JUndefined \<Longrightarrow>
   fst (getAccommodationDetails env db now ps r) = cached_result (data (fst (getAccommodationDetails env db now ps r)))"
  by (cases "truthy (getCached env r (getAccommodationDetails_cacheKey ps))")
     (auto simp: getAccommodationDetails_def Let_def meta_def getp_def cached_result_def
        split: sum.splits option.splits)

lemma getGolfResorts_failure_no_metadata:
  "\<not> success (fst (getGolfResorts env db now ps r)) \<Longrightarrow> metadata (fst (getGolfResorts env db now ps r)) = None"
  by (cases "truthy (getCached env r (getGolfResorts_cacheKey ps))")
     (simp_all add: getGolfResorts_def Let_def split: sum.splits option.splits)

lemma getGolfResorts_cached_is_hit:
  "meta (fst (getGolfResorts env db now ps r)) ''cached'' \<noteq> JUndefined \<Longrightarrow>
   fst (getGolfResorts env db now ps r) = cached_result (data (fst (getGolfResorts env db now ps r)))"
  by (cases "truthy (getCached env r (getGolfResorts_cacheKey ps))")
     (auto simp: getGolfResorts_def Let_def meta_def getp_def cached_result_def
        split: sum.splits option.splits)

lemma getSupplierRates_failure_no_metadata:
  "\<not> success (fst (getSupplierRates env db now ps r)) \<Longrightarrow> metadata (fst (getSupplierRates env db now ps r)) = None"
  by (cases "truthy (getCached env r (getSupplierRates_cacheKey ps))")
     (simp_all add: getSupplierRates_def Let_def split: sum.splits option.splits)

lemma getSupplierRates_cached_is_hit:
  "meta (fst (getSupplierRates env db now ps r)) ''cached'' \<noteq> JUndefined \<Longrightarrow>
   fst (getSupplierRates env db now ps r) = cached_result (data (fst (getSupplierRates env db now ps r)))"
  by (cases "truthy (getCached env r (getSupplierRates_cacheKey ps))")
     (auto simp: getSupplierRates_def Let_def meta_def getp_def cached_result_def
        split: sum.splits option.splits)

lemma getOperatorSuppliers_failure_no_metadata:
  "\<not> success (fst (getOperatorSuppliers env db ps r)) \<Longrightarrow> metadata (fst (getOperatorSuppliers env db ps r)) = None"
  by (cases "truthy (getCached env r (getOperatorSuppliers_cacheKey ps))")
     (simp_all add: getOperatorSuppliers_def Let_def split: sum.splits option.splits)

lemma getOperatorSuppliers_cached_is_hit:
  "meta (fst (getOperatorSuppliers env db ps r)) ''cached'' \<noteq> JUndefined \<Longrightarrow>
   fst (getOperatorSuppliers env db ps r) = cached_result (data (fst (getOperatorSuppliers env db ps r)))"
  by (cases "truthy (getCached env r (getOperatorSuppliers_cacheKey ps))")
     (auto simp: getOperatorSuppliers_def Let_def meta_def getp_def cached_result_def
        split: sum.splits option.splits)

lemma getRecommendedCourses_failure_no_metadata:
  "\<not> success (fst (getRecommendedCourses env db now ps r)) \<Longrightarrow> metadata (fst (getRecommendedCourses env db now ps r)) = None"
  by (cases "truthy (getCached env r (getRecommendedCourses_cacheKey ps))")
     (simp_all add: getRecommendedCourses_def Let_def split: sum.splits option.splits)

lemma getRecommendedCourses_cached_is_hit:
  "meta (fst (getRecommendedCourses env db now ps r)) ''cached'' \<noteq> JUndefined \<Longrightarrow>
   fst (getRecommendedCourses env db now ps r) = cached_result (data (fst (getRecommendedCourses env db now ps r)))"
  by (cases "truthy (getCached env r (getRecommendedCourses_cacheKey ps))")
     (auto simp: getRecommendedCourses_def Let_def meta_def getp_def cached_result_def
        split: sum.splits option.splits)

lemma getRecommendedCourses_store_error:
  "\<not> truthy (getCached env r (getRecommendedCourses_cacheKey ps)) \<Longrightarrow>
   getRecommendedCourses_query ps = Inr q \<Longrightarrow>
   db q = Inr resp \<Longrightarrow> resp_error resp = Some msg \<Longrightarrow>
   getRecommendedCourses env db now ps r = (failure_result (Text (''Database error: '' @ msg)), r)"
  by (simp add: getRecommendedCourses_def failure_result_def Let_def)

lemma getRecommendedCourses_store_ok:
  "\<not> truthy (getCached env r (getRecommendedCourses_cacheKey ps)) \<Longrightarrow>
   getRecommendedCourses_query ps = Inr q \<Longrightarrow>
   db q = Inr resp \<Longrightarrow> resp_error resp = None \<Longrightarrow>
   getRecommendedCourses env db now ps r =
     (\<lparr>success = True, data = js_or (resp_data resp) (JArr []), error = None,
       metadata = Some
         [(''count'', js_or (opt_length (resp_data resp)) (JNum 0)),
          (''budget_tier'', getp ps ''budget_tier''),
          (''duration_ms'', JNum (now 1 - now 0))]\<rparr>,
      setCached env r (getRecommendedCourses_cacheKey ps) (resp_data resp) None)"
  by (simp add: getRecommendedCourses_def Let_def)

lemma findCourseByName_store_error:
  "db (findCourseByName_query nm) = Inr resp \<Longrightarrow> resp_error resp = Some msg \<Longrightarrow>
   findCourseByName db now nm = failure_result (Text (''Database error: '' @ msg))"
  by (simp add: findCourseByName_def failure_result_def Let_def)

lemma findCourseByName_failure_no_metadata:
  "\<not> success (findCourseByName db now nm) \<Longrightarrow> metadata (findCourseByName db now nm) = None"
  by (simp add: findCourseByName_def Let_def split: sum.splits option.splits if_splits)

lemma hasNegotiatedRate_store_error:
  "db (hasNegotiatedRate_query ps) = Inr resp \<Longrightarrow> resp_error resp = Some msg \<Longrightarrow>
   hasNegotiatedRate db ps =
     \<lparr>success = True, data = JObj [(''has_rate'', JBool False)], error = None, metadata = None\<rparr>"
  by (simp add: hasNegotiatedRate_def)


lemma tools_cases:
  assumes "t \<in> set tools"
  obtains
    "name t = ''search_courses''" "execute t = searchCourses"
  | "name t = ''get_course_details''" "execute t = getCourseDetails"
  | "name t = ''get_recommended_courses''" "execute t = getRecommendedCourses"
  | "name t = ''find_course_by_name''"
    "execute t = (\<lambda>env db now params r. (findCourseByName db now (getp params ''courseName''), r))"
  | "name t = ''search_accommodations''" "execute t = searchAccommodations"
  | "name t = ''get_accommodation_details''" "execute t = getAccommodationDetails"
  | "name t = ''get_golf_resorts''"
    "execute t = (\<lambda>env db now params r. getGolfResorts env db now (getp params ''region'') r)"
  | "name t = ''get_supplier_rates''" "execute t = getSupplierRates"
  | "name t = ''has_negotiated_rate''"
    "execute t = (\<lambda>env db now params r. (hasNegotiatedRate db params, r))"
  | "name t = ''get_operator_suppliers''"
    "execute t = (\<lambda>env db now params r. getOperatorSuppliers env db (getp params ''operatorId'') r)"
  using assms unfolding tools_def by auto


text \<open>
  Claim C3, as amended. For every registered tool and every execution, the result
  carries \<open>metadata.duration_ms\<close> exactly when the execution succeeded, was not served
  from the cache, and the tool is neither \<open>has_negotiated_rate\<close> nor
  \<open>get_operator_suppliers\<close>; it is then the handler's clock reading before returning
  minus its reading on entry. A failed execution carries no metadata at all, and a result
  marked \<open>cached\<close> is exactly the cache-hit envelope, whose metadata is \<open>{cached: true}\<close>.
\<close>

theorem duration_ms_presence:
  "\<forall>t \<in> set tools.
     meta (fst (execute t env db now ps r)) ''duration_ms'' =
       (if success (fst (execute t env db now ps r)) \<and>
           meta (fst (execute t env db now ps r)) ''cached'' = JUndefined \<and>
           name t \<notin> {''has_negotiated_rate'', ''get_operator_suppliers''}
        then JNum (now 1 - now 0) else JUndefined) \<and>
     (\<not> success (fst (execute t env db now ps r)) \<longrightarrow>
        metadata (fst (execute t env db now ps r)) = None) \<and>
     (meta (fst (execute t env db now ps r)) ''cached'' \<noteq> JUndefined \<longrightarrow>
        fst (execute t env db now ps r) =
          cached_result (data (fst (execute t env db now ps r))))"
proof
  fix t assume "t \<in> set tools"
  then show "meta (fst (execute t env db now ps r)) ''duration_ms'' =
       (if success (fst (execute t env db now ps r)) \<and>
           meta (fst (execute t env db now ps r)) ''cached'' = JUndefined \<and>
           name t \<notin> {''has_negotiated_rate'', ''get_operator_suppliers''}
        then JNum (now 1 - now 0) else JUndefined) \<and>
     (\<not> success (fst (execute t env db now ps r)) \<longrightarrow>
        metadata (fst (execute t env db now ps r)) = None) \<and>
     (meta (fst (execute t env db now ps r)) ''cached'' \<noteq> JUndefined \<longrightarrow>
        fst (execute t env db now ps r) =
          cached_result (data (fst (execute t env db now ps r))))"
  proof (cases t rule: tools_cases)
    case 1
    then show ?thesis
      using searchCourses_duration searchCourses_failure_no_metadata searchCourses_cached_is_hit
      by simp
  next
    case 2
    then show ?thesis
      using getCourseDetails_duration getCourseDetails_failure_no_metadata
        getCourseDetails_cached_is_hit
      by simp
  next
    case 3
    then show ?thesis
      using getRecommendedCourses_duration getRecommendedCourses_failure_no_metadata
        getRecommendedCourses_cached_is_hit
      by simp
  next
    case 4
    then show ?thesis
      using findCourseByName_duration findCourseByName_failure_no_metadata
        findCourseByName_not_cached
      by simp
  next
    case 5
    then show ?thesis
      using searchAccommodations_duration searchAccommodations_failure_no_metadata
        searchAccommodations_cached_is_hit
      by simp
  next
    case 6
    then show ?thesis
      using getAccommodationDetails_duration getAccommodationDetails_failure_no_metadata
        getAccommodationDetails_cached_is_hit
      by simp
  next
    case 7
    then show ?thesis
      using getGolfResorts_duration getGolfResorts_failure_no_metadata
        getGolfResorts_cached_is_hit
      by simp
  next
    case 8
    then show ?thesis
      using getSupplierRates_duration getSupplierRates_failure_no_metadata
        getSupplierRates_cached_is_hit
      by simp
  next
    case 9
    then show ?thesis
      using hasNegotiatedRate_no_metadata[of db ps]
      by (simp add: meta_def)
  next
    case 10
    then show ?thesis
      using getOperatorSuppliers_duration getOperatorSuppliers_failure_no_metadata
        getOperatorSuppliers_cached_is_hit
      by simp
  qed
qed


lemma table_store_rows:
  "\<not> single_row q \<Longrightarrow>
   table_store T q =
     Inr \<lparr>resp_data = JArr (map JObj (select_rows q (T (table q)))), resp_error = None\<rparr>"
  by (simp add: table_store_def Let_def)

lemma searchCourses_query_not_single: "\<not> single_row (searchCourses_query ps)"
  by (simp add: searchCourses_query_def Let_def from_select_def ilike_def eq_def gte_def
      lte_def limit_def order_def)

lemma failing_store_response: "failing_store msg q = Inr (error_response msg)"
  by (simp add: failing_store_def error_response_def)

lemma error_response_error: "resp_error (error_response msg) = Some msg"
  by (simp add: error_response_def)

lemma cache_unavailable_no_cache: "cache_unavailable env_no_cache r"
  by (simp add: cache_unavailable_def env_no_cache_def)

lemma not_truthy_unavailable:
  "cache_unavailable env r \<Longrightarrow> \<not> truthy (getCached env r k)"
  by (simp add: getCached_unavailable)

lemma tools_0_mem: "tools ! 0 \<in> set tools"
  by (rule nth_mem) (simp add: tools_def)

lemma tools_0_name: "name (tools ! 0) = ''search_courses''"
  by (simp add: tools_def)

lemma searchCourses_warm:
  "getCached env_cache
     (snd (searchCourses env_cache (table_store T) now ps empty_cache))
     (searchCourses_cacheKey ps) =
   JArr (map JObj (select_rows (searchCourses_query ps) (T ''golf_courses'')))"
proof -
  have miss: "\<not> truthy (getCached env_cache empty_cache (searchCourses_cacheKey ps))"
    by (simp add: getCached_def getRedisClient_def env_cache_def empty_cache_def)
  have tbl: "table (searchCourses_query ps) = ''golf_courses''"
    by (simp add: searchCourses_query_def Let_def from_select_def ilike_def eq_def gte_def
      lte_def limit_def order_def)
  have db: "table_store T (searchCourses_query ps) =
      Inr \<lparr>resp_data = JArr (map JObj (select_rows (searchCourses_query ps) (T ''golf_courses''))),
           resp_error = None\<rparr>"
    using table_store_rows[OF searchCourses_query_not_single, of T ps] by (simp add: tbl)
  have "snd (searchCourses env_cache (table_store T) now ps empty_cache) =
      setCached env_cache empty_cache (searchCourses_cacheKey ps)
        (JArr (map JObj (select_rows (searchCourses_query ps) (T ''golf_courses'')))) None"
    using searchCourses_store_ok[where db = "table_store T" and now = now, OF miss db] by simp
  then show ?thesis
    by (simp add: setCached_def getCached_def getRedisClient_def env_cache_def empty_cache_def)
qed

























lemma searchCourses_first_call:
  "searchCourses env_cache (table_store T) now ps empty_cache =
     (\<lparr>success = True,
       data = JArr (map JObj (select_rows (searchCourses_query ps) (T ''golf_courses''))),
       error = None,
       metadata = Some
         [(''count'', JNum (int (length (select_rows (searchCourses_query ps) (T ''golf_courses''))))),
          (''duration_ms'', JNum (now 1 - now 0))]\<rparr>,
      setCached env_cache empty_cache (searchCourses_cacheKey ps)
        (JArr (map JObj (select_rows (searchCourses_query ps) (T ''golf_courses'')))) None)"
proof -
  have miss: "\<not> truthy (getCached env_cache empty_cache (searchCourses_cacheKey ps))"
    by (simp add: getCached_def getRedisClient_def env_cache_def empty_cache_def)
  have tbl: "table (searchCourses_query ps) = ''golf_courses''"
    by (simp add: searchCourses_query_def Let_def from_select_def ilike_def eq_def gte_def
      lte_def limit_def order_def)
  have db: "table_store T (searchCourses_query ps) =
      Inr \<lparr>resp_data = JArr (map JObj (select_rows (searchCourses_query ps) (T ''golf_courses''))),
           resp_error = None\<rparr>"
    using table_store_rows[OF searchCourses_query_not_single, of T ps] by (simp add: tbl)
  show ?thesis
    using searchCourses_store_ok[where db = "table_store T" and now = now, OF miss db]
    by (simp add: js_or_def)
qed

text \<open>
  Claim C3 as stated fails: \<open>search_courses\<close> returns no \<open>duration_ms\<close> when the store
  reports an error, nor when the second of two identical calls is served from the cache.
\<close>

theorem duration_ms_absent_on_failure_and_hit:
  "meta (fst (searchCourses env_cache (failing_store ''connection refused'') clock_145
      ireland_params Unreachable)) ''duration_ms'' = JUndefined \<and>
   meta (fst (searchCourses env_cache (table_store demo_tables) clock_145 ireland_params
      (snd (searchCourses env_cache (table_store demo_tables) clock_145 ireland_params
         empty_cache)))) ''duration_ms'' = JUndefined"
proof -
  let ?r1 = "snd (searchCourses env_cache (table_store demo_tables) clock_145 ireland_params
         empty_cache)"
  have "cache_unavailable env_cache Unreachable"
    by (simp add: cache_unavailable_def)
  from searchCourses_store_error[where db = "failing_store ''connection refused''",
      OF not_truthy_unavailable[OF this] failing_store_response error_response_error]
  have 1: "meta (fst (searchCourses env_cache (failing_store ''connection refused'') clock_145
      ireland_params Unreachable)) ''duration_ms'' = JUndefined"
    by (simp add: failure_result_def meta_def)
  have "truthy (getCached env_cache ?r1 (searchCourses_cacheKey ireland_params))"
    by (simp add: searchCourses_warm)
  from searchCourses_hit[OF this]
  have 2: "meta (fst (searchCourses env_cache (table_store demo_tables) clock_145
      ireland_params ?r1)) ''duration_ms'' = JUndefined"
    by (simp add: cached_result_def meta_def getp_def)
  from 1 2 show ?thesis by simp
qed

theorem duration_ms_presence_witness:
  "tools ! 0 \<in> set tools \<and>
   success (fst (execute (tools ! 0) env_cache (table_store demo_tables) clock_145
      ireland_params empty_cache)) \<and>
   meta (fst (execute (tools ! 0) env_cache (table_store demo_tables) clock_145
      ireland_params empty_cache)) ''duration_ms'' = JNum 145 \<and>
   \<not> success (fst (execute (tools ! 0) env_cache (failing_store ''connection refused'')
      clock_145 ireland_params Unreachable)) \<and>
   metadata (fst (execute (tools ! 0) env_cache (failing_store ''connection refused'')
      clock_145 ireland_params Unreachable)) = None \<and>
   meta (fst (execute (tools ! 0) env_cache (table_store demo_tables) clock_145 ireland_params
      (snd (searchCourses env_cache (table_store demo_tables) clock_145 ireland_params
         empty_cache)))) ''cached'' = JBool True \<and>
   meta (fst (execute (tools ! 0) env_cache (table_store demo_tables) clock_145 ireland_params
      (snd (searchCourses env_cache (table_store demo_tables) clock_145 ireland_params
         empty_cache)))) ''duration_ms'' = JUndefined"
proof -
  let ?T = "table_store demo_tables"
  let ?F = "failing_store ''connection refused''"
  let ?r1 = "snd (searchCourses env_cache ?T clock_145 ireland_params empty_cache)"
  note ex = tools_0(2)
  have ok: "success (fst (searchCourses env_cache ?T clock_145 ireland_params empty_cache))"
    "meta (fst (searchCourses env_cache ?T clock_145 ireland_params empty_cache)) ''cached'' =
       JUndefined"
    by (simp_all add: searchCourses_first_call meta_def getp_def)
  have "cache_unavailable env_cache Unreachable"
    by (simp add: cache_unavailable_def)
  from searchCourses_store_error[where db = ?F,
      OF not_truthy_unavailable[OF this] failing_store_response error_response_error]
  have bad: "\<not> success (fst (searchCourses env_cache ?F clock_145 ireland_params Unreachable))"
    by (simp add: failure_result_def)
  have "truthy (getCached env_cache ?r1 (searchCourses_cacheKey ireland_params))"
    by (simp add: searchCourses_warm)
  from searchCourses_hit[OF this]
  have hit: "meta (fst (searchCourses env_cache ?T clock_145 ireland_params ?r1)) ''cached'' =
      JBool True"
    by (simp add: cached_result_def meta_def getp_def)
  from duration_ms_presence[of env_cache ?T clock_145 ireland_params empty_cache,
      THEN bspec, OF tools_0_mem] ok
  have 1: "meta (fst (execute (tools ! 0) env_cache ?T clock_145 ireland_params empty_cache))
      ''duration_ms'' = JNum 145"
    by (simp add: ex tools_0_name clock_145_def)
  from duration_ms_presence[of env_cache ?F clock_145 ireland_params Unreachable,
      THEN bspec, OF tools_0_mem] bad
  have 2: "metadata (fst (execute (tools ! 0) env_cache ?F clock_145 ireland_params
      Unreachable)) = None"
    by (simp add: ex)
  from duration_ms_presence[of env_cache ?T clock_145 ireland_params ?r1,
      THEN bspec, OF tools_0_mem] hit
  have 3: "meta (fst (execute (tools ! 0) env_cache ?T clock_145 ireland_params ?r1))
      ''duration_ms'' = JUndefined"
    by (simp add: ex)
  from tools_0_mem ok bad hit 1 2 3 show ?thesis by (simp add: ex)
qed

text \<open>
  Claim C4, as amended. In every handler but \<open>hasNegotiatedRate\<close>, when the store's
  answer to the handler's query carries an error, the result is \<open>success: false\<close> with
  an error message made of the handler's prefix and the store's message, and the cache
  backend is unchanged. (The handlers with a cache query the store on a miss.)
  \<open>hasNegotiatedRate\<close> answers \<open>success: true\<close> with \<open>has_rate: false\<close> instead.
\<close>

theorem store_error_reported:
  "(\<not> truthy (getCached env r (searchCourses_cacheKey ps)) \<and>
      db (searchCourses_query ps) = Inr resp \<and> resp_error resp = Some msg \<longrightarrow>
      searchCourses env db now ps r =
        (failure_result (Text (''Database error: '' @ msg)), r)) \<and>
   (\<not> truthy (getCached env r (getCourseDetails_cacheKey ps)) \<and>
      db (getCourseDetails_query ps) = Inr resp \<and> resp_error resp = Some msg \<longrightarrow>
      getCourseDetails env db now ps r =
        (failure_result (Text (''Course not found or database error: '' @ msg)), r)) \<and>
   (\<forall>q. \<not> truthy (getCached env r (getRecommendedCourses_cacheKey ps)) \<and>
      getRecommendedCourses_query ps = Inr q \<and>
      db q = Inr resp \<and> resp_error resp = Some msg \<longrightarrow>
      getRecommendedCourses env db now ps r =
        (failure_result (Text (''Database error: '' @ msg)), r)) \<and>
   (db (findCourseByName_query courseName) = Inr resp \<and> resp_error resp = Some msg \<longrightarrow>
      findCourseByName db now courseName =
        failure_result (Text (''Database error: '' @ msg))) \<and>
   (\<not> truthy (getCached env r (searchAccommodations_cacheKey ps)) \<and>
      db (searchAccommodations_query ps) = Inr resp \<and> resp_error resp = Some msg \<longrightarrow>
      searchAccommodations env db now ps r =
        (failure_result (Text (''Database error: '' @ msg)), r)) \<and>
   (\<not> truthy (getCached env r (getAccommodationDetails_cacheKey ps)) \<and>
      db (getAccommodationDetails_query ps) = Inr resp \<and> resp_error resp = Some msg \<longrightarrow>
      getAccommodationDetails env db now ps r =
        (failure_result (Text (''Accommodation not found or database error: '' @ msg)), r)) \<and>
   (\<not> truthy (getCached env r (getGolfResorts_cacheKey region)) \<and>
      db (getGolfResorts_query region) = Inr resp \<and> resp_error resp = Some msg \<longrightarrow>
      getGolfResorts env db now region r =
        (failure_result (Text (''Database error: '' @ msg)), r)) \<and>
   (\<not> truthy (getCached env r (getSupplierRates_cacheKey ps)) \<and>
      db (getSupplierRates_query ps) = Inr resp \<and> resp_error resp = Some msg \<longrightarrow>
      getSupplierRates env db now ps r =
        (failure_result (Text (''Database error: '' @ msg)), r)) \<and>
   (\<not> truthy (getCached env r (getOperatorSuppliers_cacheKey operatorId)) \<and>
      db (getOperatorSuppliers_query operatorId) = Inr resp \<and> resp_error resp = Some msg \<longrightarrow>
      getOperatorSuppliers env db operatorId r =
        (failure_result (Text (''Database error: '' @ msg)), r)) \<and>
   (db (hasNegotiatedRate_query ps) = Inr resp \<and> resp_error resp = Some msg \<longrightarrow>
      hasNegotiatedRate db ps =
        \<lparr>success = True, data = JObj [(''has_rate'', JBool False)], error = None,
         metadata = None\<rparr>)"
  using searchCourses_store_error[of env r ps db resp msg now]
    getCourseDetails_store_error[of env r ps db resp msg now]
    getRecommendedCourses_store_error[of env r ps _ db resp msg now]
    findCourseByName_store_error[of db courseName resp msg now]
    searchAccommodations_store_error[of env r ps db resp msg now]
    getAccommodationDetails_store_error[of env r ps db resp msg now]
    getGolfResorts_store_error[of env r region db resp msg now]
    getSupplierRates_store_error[of env r ps db resp msg now]
    getOperatorSuppliers_store_error[of env r operatorId db resp msg]
    hasNegotiatedRate_store_error[of db ps resp msg]
  by blast

text \<open>
  Claim C4 as stated fails for \<open>hasNegotiatedRate\<close>: the store reports an error and the
  result is a success.
\<close>

theorem hasNegotiatedRate_hides_store_error:
  "failing_store ''connection refused'' (hasNegotiatedRate_query operator_params) =
     Inr \<lparr>resp_data = JNull, resp_error = Some ''connection refused''\<rparr> \<and>
   hasNegotiatedRate (failing_store ''connection refused'') operator_params =
     \<lparr>success = True, data = JObj [(''has_rate'', JBool False)], error = None,
      metadata = None\<rparr>"
  by (simp add: failing_store_def hasNegotiatedRate_def)


lemma recommended_query_budget:
  "getRecommendedCourses_query (budget_ireland l) =
     Inr \<lparr>table = ''golf_courses'', columns = recommended_columns,
          filters = [Ilike ''region'' ''%ireland%'',
                     Lte ''green_fee_standard_cents'' (JNum 15000)],
          order_by = [(''rating'', False)],
          limit_n = Some (if l = 0 then JNum 10 else JNum l),
          single_row = False\<rparr>"
  by (simp add: getRecommendedCourses_query_def budget_ireland_def priceRanges_def getp_def
      has_key_def Let_def from_select_def ilike_def order_def limit_def lte_def gte_def
      js_or_def recommended_columns_def)

theorem store_error_reported_witness:
  "\<not> truthy (getCached env_no_cache Unreachable (searchCourses_cacheKey (budget_ireland 10))) \<and>
   failing_store ''connection refused'' (searchCourses_query (budget_ireland 10)) =
     Inr (error_response ''connection refused'') \<and>
   resp_error (error_response ''connection refused'') = Some ''connection refused'' \<and>
   searchCourses env_no_cache (failing_store ''connection refused'') clock_145
      (budget_ireland 10) Unreachable =
     (failure_result (Text ''Database error: connection refused''), Unreachable) \<and>
   getCourseDetails env_no_cache (failing_store ''connection refused'') clock_145
      (budget_ireland 10) Unreachable =
     (failure_result (Text ''Course not found or database error: connection refused''),
      Unreachable) \<and>
   getRecommendedCourses env_no_cache (failing_store ''connection refused'') clock_145
      (budget_ireland 10) Unreachable =
     (failure_result (Text ''Database error: connection refused''), Unreachable) \<and>
   findCourseByName (failing_store ''connection refused'') clock_145 (JStr ''Tralee'') =
     failure_result (Text ''Database error: connection refused'') \<and>
   searchAccommodations env_no_cache (failing_store ''connection refused'') clock_145
      (budget_ireland 10) Unreachable =
     (failure_result (Text ''Database error: connection refused''), Unreachable) \<and>
   getAccommodationDetails env_no_cache (failing_store ''connection refused'') clock_145
      (budget_ireland 10) Unreachable =
     (failure_result (Text ''Accommodation not found or database error: connection refused''),
      Unreachable) \<and>
   getGolfResorts env_no_cache (failing_store ''connection refused'') clock_145
      (JStr ''Tralee'') Unreachable =
     (failure_result (Text ''Database error: connection refused''), Unreachable) \<and>
   getSupplierRates env_no_cache (failing_store ''connection refused'') clock_145
      (budget_ireland 10) Unreachable =
     (failure_result (Text ''Database error: connection refused''), Unreachable) \<and>
   getOperatorSuppliers env_no_cache (failing_store ''connection refused'')
      (JStr ''Tralee'') Unreachable =
     (failure_result (Text ''Database error: connection refused''), Unreachable) \<and>
   hasNegotiatedRate (failing_store ''connection refused'') (budget_ireland 10) =
     \<lparr>success = True, data = JObj [(''has_rate'', JBool False)], error = None,
      metadata = None\<rparr>"
proof -
  let ?F = "failing_store ''connection refused''"
  note m = not_truthy_unavailable[OF cache_unavailable_no_cache, of Unreachable]
  note e = error_response_error[of "''connection refused''"]
  note f = failing_store_response[of "''connection refused''"]
  note th = store_error_reported[of env_no_cache Unreachable "budget_ireland 10" ?F
      "error_response ''connection refused''" "''connection refused''" clock_145
      "JStr ''Tralee''" "JStr ''Tralee''" "JStr ''Tralee''"]
  from th m e f recommended_query_budget[of 10] show ?thesis
    by simp
qed

subsection \<open>Recommended courses and the zero limit\<close>

lemma like_percent: "like (CHR ''%'' # ps) s = (\<exists>t. suffix t s \<and> like ps t)"
proof (induction s)
  case Nil
  then show ?case by simp
next
  case (Cons c cs)
  show ?case by (auto simp: Cons suffix_Cons)
qed

lemma like_only_percent: "like [CHR ''%''] s"
  by (induction s) auto

lemma like_literal_prefix:
  "CHR ''%'' \<notin> set p \<Longrightarrow> CHR ''_'' \<notin> set p \<Longrightarrow> CHR 0x5C \<notin> set p \<Longrightarrow>
   like (p @ [CHR ''%'']) s = prefix p s"
proof (induction p arbitrary: s)
  case Nil
  then show ?case by (simp add: like_only_percent)
next
  case (Cons a p)
  then show ?case by (cases s) auto
qed

lemma like_substring:
  assumes "CHR ''%'' \<notin> set p" "CHR ''_'' \<notin> set p" "CHR 0x5C \<notin> set p"
  shows "like (CHR ''%'' # p @ [CHR ''%'']) s = sublist p s"
  unfolding like_percent sublist_altdef' using like_literal_prefix[OF assms] by simp

lemma lower_char_pattern: "lower_char c \<in> pattern_chars \<longleftrightarrow> c \<in> pattern_chars"
  by (auto simp: lower_char_def pattern_chars_def split: option.splits if_splits)

lemma lower_char_percent: "lower_char CHR ''%'' = CHR ''%''"
  by (simp add: lower_char_def)

lemma pg_ilike_substring:
  assumes "set rg \<inter> pattern_chars = {}"
  shows "pg_ilike (''%'' @ rg @ ''%'') s = sublist (map lower_char rg) (map lower_char s)"
proof -
  have star: "map (\<lambda>c. if c = CHR ''*'' then CHR ''%'' else c) rg = rg"
    using assms by (induction rg) (auto simp: pattern_chars_def)
  have np: "set (map lower_char rg) \<inter> pattern_chars = {}"
    using assms lower_char_pattern by auto
  then have "CHR ''%'' \<notin> set (map lower_char rg)" "CHR ''_'' \<notin> set (map lower_char rg)"
    "CHR 0x5C \<notin> set (map lower_char rg)"
    by (auto simp: pattern_chars_def)
  from like_substring[OF this] show ?thesis
    by (simp add: pg_ilike_def star lower_char_percent)
qed


lemma price_filters:
  "list_all (passes rw) [Lte ''green_fee_standard_cents'' (JNum 15000)] =
     price_in_tier ''budget'' rw"
  "list_all (passes rw) [Gte ''green_fee_standard_cents'' (JNum 15000),
      Lte ''green_fee_standard_cents'' (JNum 35000)] = price_in_tier ''standard'' rw"
  "list_all (passes rw) [Gte ''green_fee_standard_cents'' (JNum 35000)] =
     price_in_tier ''luxury'' rw"
  by (simp_all add: price_in_tier_def tier_bracket_def split: jsval.splits)

lemma region_filter:
  "set rg \<inter> pattern_chars = {} \<Longrightarrow>
   passes rw (Ilike ''region'' (''%'' @ rg @ ''%'')) = region_matches rg rw"
  using pg_ilike_substring[of rg]
  by (simp add: region_matches_def split: jsval.splits)


lemma recommended_query:
  assumes "getp ps ''region'' = JStr rg" "getp ps ''budget_tier'' = JStr tier"
    and "tier \<in> {''budget'', ''standard'', ''luxury''}"
  shows "\<exists>fs. getRecommendedCourses_query ps =
     Inr \<lparr>table = ''golf_courses'', columns = recommended_columns,
          filters = Ilike ''region'' (''%'' @ rg @ ''%'') # fs,
          order_by = [(''rating'', False)],
          limit_n = Some (js_or (getp ps ''limit'') (JNum 10)),
          single_row = False\<rparr> \<and>
     (\<forall>rw. list_all (passes rw) fs = price_in_tier tier rw)"
proof -
  consider "tier = ''budget''" | "tier = ''standard''" | "tier = ''luxury''"
    using assms(3) by auto
  then show ?thesis
  proof cases
    case 1
    have "getRecommendedCourses_query ps =
     Inr \<lparr>table = ''golf_courses'', columns = recommended_columns,
          filters = Ilike ''region'' (''%'' @ rg @ ''%'') #
            [Lte ''green_fee_standard_cents'' (JNum 15000)],
          order_by = [(''rating'', False)],
          limit_n = Some (js_or (getp ps ''limit'') (JNum 10)),
          single_row = False\<rparr>"
      using assms(1,2) 1
      by (simp add: getRecommendedCourses_query_def priceRanges_def getp_def
          has_key_def Let_def from_select_def ilike_def order_def limit_def lte_def gte_def
          recommended_columns_def)
    with price_filters(1) 1 show ?thesis by blast
  next
    case 2
    have "getRecommendedCourses_query ps =
     Inr \<lparr>table = ''golf_courses'', columns = recommended_columns,
          filters = Ilike ''region'' (''%'' @ rg @ ''%'') #
            [Gte ''green_fee_standard_cents'' (JNum 15000),
             Lte ''green_fee_standard_cents'' (JNum 35000)],
          order_by = [(''rating'', False)],
          limit_n = Some (js_or (getp ps ''limit'') (JNum 10)),
          single_row = False\<rparr>"
      using assms(1,2) 2
      by (simp add: getRecommendedCourses_query_def priceRanges_def getp_def
          has_key_def Let_def from_select_def ilike_def order_def limit_def lte_def gte_def
          recommended_columns_def)
    with price_filters(2) 2 show ?thesis by blast
  next
    case 3
    have "getRecommendedCourses_query ps =
     Inr \<lparr>table = ''golf_courses'', columns = recommended_columns,
          filters = Ilike ''region'' (''%'' @ rg @ ''%'') #
            [Gte ''green_fee_standard_cents'' (JNum 35000)],
          order_by = [(''rating'', False)],
          limit_n = Some (js_or (getp ps ''limit'') (JNum 10)),
          single_row = False\<rparr>"
      using assms(1,2) 3
      by (simp add: getRecommendedCourses_query_def priceRanges_def getp_def
          has_key_def Let_def from_select_def ilike_def order_def limit_def lte_def gte_def
          recommended_columns_def)
    with price_filters(3) 3 show ?thesis by blast
  qed
qed

lemma recommended_select_rows:
  assumes "set rg \<inter> pattern_chars = {}"
    and "\<forall>rw. list_all (passes rw) fs = price_in_tier tier rw"
  shows "select_rows
     \<lparr>table = ''golf_courses'', columns = recommended_columns,
      filters = Ilike ''region'' (''%'' @ rg @ ''%'') # fs,
      order_by = [(''rating'', False)], limit_n = Some (JNum n), single_row = False\<rparr> rows =
     map (project recommended_columns) (recommended_selection rg tier (nat n) rows)"
  using region_filter[OF assms(1)] assms(2)
  by (simp add: select_rows_def apply_limit_def apply_order_def recommended_selection_def
      by_descending_rating_def)

lemma effective_limit:
  "js_or (JNum l) (JNum 10) = JNum (if l = 0 then 10 else l)"
  by (simp add: js_or_def)

lemma count_length: "js_or (opt_length (JArr xs)) (JNum 0) = JNum (int (length xs))"
  by (simp add: js_or_def)

lemma recommended_result:
  assumes region: "getp ps ''region'' = JStr rg" "set rg \<inter> pattern_chars = {}"
    and tier: "getp ps ''budget_tier'' = JStr tier" "tier \<in> {''budget'', ''standard'', ''luxury''}"
    and lim: "getp ps ''limit'' = JNum l"
    and miss: "\<not> truthy (getCached env r (getRecommendedCourses_cacheKey ps))"
  shows "fst (getRecommendedCourses env (table_store T) now ps r) =
     \<lparr>success = True,
      data = JArr (map (\<lambda>rw. JObj (project recommended_columns rw))
        (recommended_selection rg tier (nat (if l = 0 then 10 else l)) (T ''golf_courses''))),
      error = None,
      metadata = Some
        [(''count'', JNum (int (length
            (recommended_selection rg tier (nat (if l = 0 then 10 else l)) (T ''golf_courses''))))),
         (''budget_tier'', JStr tier),
         (''duration_ms'', JNum (now 1 - now 0))]\<rparr>"
proof -
  from recommended_query[OF region(1) tier] obtain fs where
    q: "getRecommendedCourses_query ps =
     Inr \<lparr>table = ''golf_courses'', columns = recommended_columns,
          filters = Ilike ''region'' (''%'' @ rg @ ''%'') # fs,
          order_by = [(''rating'', False)],
          limit_n = Some (js_or (getp ps ''limit'') (JNum 10)),
          single_row = False\<rparr>"
    and fs: "\<forall>rw. list_all (passes rw) fs = price_in_tier tier rw"
    by blast
  let ?n = "if l = 0 then 10 else l"
  let ?q = "\<lparr>table = ''golf_courses'', columns = recommended_columns,
          filters = Ilike ''region'' (''%'' @ rg @ ''%'') # fs,
          order_by = [(''rating'', False)],
          limit_n = Some (JNum ?n), single_row = False\<rparr>"
  let ?sel = "recommended_selection rg tier (nat ?n) (T ''golf_courses'')"
  from q have q': "getRecommendedCourses_query ps = Inr ?q"
    by (simp add: lim effective_limit)
  have db: "table_store T ?q =
      Inr \<lparr>resp_data = JArr (map JObj (map (project recommended_columns) ?sel)),
           resp_error = None\<rparr>"
    using table_store_rows[of ?q T] recommended_select_rows[OF region(2) fs, of ?n "T ''golf_courses''"]
    by simp
  show ?thesis
    using getRecommendedCourses_store_ok[where db = "table_store T" and now = now, OF miss q' db]
    by (simp add: tier(1) count_length js_or_def comp_def)
qed

lemma selection_sorted:
  "sorted_wrt (\<lambda>a b. \<forall>x y. getp a ''rating'' = JNum x \<and> getp b ''rating'' = JNum y \<longrightarrow> y \<le> x)
     (recommended_selection rg tier n courses)"
proof -
  let ?f = "\<lambda>rw. order_key False (getp rw ''rating'')"
  let ?xs = "filter (\<lambda>rw. region_matches rg rw \<and> price_in_tier tier rw) courses"
  have "sorted (map ?f (sort_key ?f ?xs))" by (rule sorted_sort_key)
  then have "sorted_wrt (\<lambda>a b. ?f a \<le> ?f b) (sort_key ?f ?xs)"
    by (simp add: sorted_map)
  then have "sorted_wrt (\<lambda>a b. ?f a \<le> ?f b) (take n (sort_key ?f ?xs))"
    by (rule sorted_wrt_take)
  then show ?thesis
    unfolding recommended_selection_def by_descending_rating_def
    by (rule sorted_wrt_mono_rel[rotated]) (auto simp: order_key_def)
qed

lemma parse_recommended_default:
  "tier \<in> {''budget'', ''standard'', ''luxury''} \<Longrightarrow>
   parse uuid GetRecommendedCoursesSchema
     (JObj [(''region'', JStr rg), (''budget_tier'', JStr tier)]) =
   Inr [(''region'', JStr rg), (''budget_tier'', JStr tier), (''limit'', JNum 10)]"
  by (auto simp: GetRecommendedCoursesSchema_def zod_parse_def getp_def)

text \<open>
  Claim C5, as amended. Let the requested region contain none of the store's pattern
  characters, the tier be one of the three, and the limit a non-negative integer. On a
  cache miss the recommended-courses lookup over a table returns, projected to the
  selected columns, exactly the courses whose region contains the requested region
  as a substring without regard to case and whose price lies in the tier's bracket,
  bounds included, ordered by descending rating and truncated to the requested limit,
  or to 10 when the requested limit is 0. The returned courses are in descending order
  of rating, and validation gives a request without a limit the limit 10.
\<close>

theorem recommended_courses_selection:
  assumes "getp ps ''region'' = JStr rg" and "set rg \<inter> pattern_chars = {}"
    and "getp ps ''budget_tier'' = JStr tier"
    and "tier \<in> {''budget'', ''standard'', ''luxury''}"
    and "getp ps ''limit'' = JNum l" and "0 \<le> l"
    and "\<not> truthy (getCached env r (getRecommendedCourses_cacheKey ps))"
  shows "fst (getRecommendedCourses env (table_store T) now ps r) =
     \<lparr>success = True,
      data = JArr (map (\<lambda>rw. JObj (project recommended_columns rw))
        (recommended_selection rg tier (nat (if l = 0 then 10 else l)) (T ''golf_courses''))),
      error = None,
      metadata = Some
        [(''count'', JNum (int (length
            (recommended_selection rg tier (nat (if l = 0 then 10 else l)) (T ''golf_courses''))))),
         (''budget_tier'', JStr tier),
         (''duration_ms'', JNum (now 1 - now 0))]\<rparr> \<and>
    sorted_wrt
      (\<lambda>a b. \<forall>x y. getp a ''rating'' = JNum x \<and> getp b ''rating'' = JNum y \<longrightarrow> y \<le> x)
      (recommended_selection rg tier (nat (if l = 0 then 10 else l)) (T ''golf_courses'')) \<and>
    parse uuid GetRecommendedCoursesSchema
      (JObj [(''region'', JStr rg), (''budget_tier'', JStr tier)]) =
    Inr [(''region'', JStr rg), (''budget_tier'', JStr tier), (''limit'', JNum 10)]"
  using recommended_result[OF assms(1-5) assms(7)] selection_sorted
    parse_recommended_default[OF assms(4)]
  by blast


lemma selection_budget_ireland:
  "recommended_selection ''ireland'' ''budget'' 10 (demo_tables ''golf_courses'') =
     [course ''Ballybunion'' ''Southwest Ireland'' 48 15000,
      course ''Tralee'' ''Southwest Ireland'' 46 9000]"
  by (simp add: recommended_selection_def by_descending_rating_def demo_tables_def course_def
      region_matches_def price_in_tier_def tier_bracket_def getp_def order_key_def
      lower_char_def sublist_code)

lemma selection_standard_ireland:
  "recommended_selection ''ireland'' ''standard'' (Suc 0) (demo_tables ''golf_courses'') =
     [course ''Ballybunion'' ''Southwest Ireland'' 48 15000]"
  by (simp add: recommended_selection_def by_descending_rating_def demo_tables_def course_def
      region_matches_def price_in_tier_def tier_bracket_def getp_def order_key_def
      lower_char_def sublist_code)

lemma project_course:
  "project recommended_columns (course nm rg rt p) = course nm rg rt p"
  by (simp add: project_def recommended_columns_def course_def has_key_def getp_def)

lemma ireland_no_pattern: "set ''ireland'' \<inter> pattern_chars = {}"
  by (simp add: pattern_chars_def)

theorem recommended_courses_selection_witness:
  "getp (budget_ireland 0) ''region'' = JStr ''ireland'' \<and>
   set ''ireland'' \<inter> pattern_chars = {} \<and>
   getp (budget_ireland 0) ''budget_tier'' = JStr ''budget'' \<and>
   getp (budget_ireland 0) ''limit'' = JNum 0 \<and>
   \<not> truthy (getCached env_no_cache Unreachable
        (getRecommendedCourses_cacheKey (budget_ireland 0))) \<and>
   fst (getRecommendedCourses env_no_cache (table_store demo_tables) clock_145
        (budget_ireland 0) Unreachable) =
     \<lparr>success = True,
      data = JArr [JObj (course ''Ballybunion'' ''Southwest Ireland'' 48 15000),
                   JObj (course ''Tralee'' ''Southwest Ireland'' 46 9000)],
      error = None,
      metadata = Some [(''count'', JNum 2), (''budget_tier'', JStr ''budget''),
                       (''duration_ms'', JNum 145)]\<rparr> \<and>
   data (fst (getRecommendedCourses env_no_cache (table_store demo_tables) clock_145
        [(''region'', JStr ''ireland''), (''budget_tier'', JStr ''standard''),
         (''limit'', JNum 1)] Unreachable)) =
     JArr [JObj (course ''Ballybunion'' ''Southwest Ireland'' 48 15000)] \<and>
   parse any_uuid GetRecommendedCoursesSchema
      (JObj [(''region'', JStr ''ireland''), (''budget_tier'', JStr ''budget'')]) =
    Inr [(''region'', JStr ''ireland''), (''budget_tier'', JStr ''budget''),
         (''limit'', JNum 10)]"
proof -
  let ?std = "[(''region'', JStr ''ireland''), (''budget_tier'', JStr ''standard''),
         (''limit'', JNum 1)]"
  have g: "getp (budget_ireland 0) ''region'' = JStr ''ireland''"
    "getp (budget_ireland 0) ''budget_tier'' = JStr ''budget''"
    "getp (budget_ireland 0) ''limit'' = JNum 0"
    by (simp_all add: budget_ireland_def getp_def)
  have h: "getp ?std ''region'' = JStr ''ireland''"
    "getp ?std ''budget_tier'' = JStr ''standard''"
    "getp ?std ''limit'' = JNum 1"
    by (simp_all add: getp_def)
  note m = not_truthy_unavailable[OF cache_unavailable_no_cache, of Unreachable]
  have t: "''budget'' \<in> {''budget'', ''standard'', ''luxury''}"
    "''standard'' \<in> {''budget'', ''standard'', ''luxury''}"
    by simp_all
  from recommended_courses_selection[OF g(1) ireland_no_pattern g(2) t(1) g(3) _ m,
      of demo_tables clock_145 any_uuid]
  have 1: "fst (getRecommendedCourses env_no_cache (table_store demo_tables) clock_145
        (budget_ireland 0) Unreachable) =
     \<lparr>success = True,
      data = JArr [JObj (course ''Ballybunion'' ''Southwest Ireland'' 48 15000),
                   JObj (course ''Tralee'' ''Southwest Ireland'' 46 9000)],
      error = None,
      metadata = Some [(''count'', JNum 2), (''budget_tier'', JStr ''budget''),
                       (''duration_ms'', JNum 145)]\<rparr>"
    and 3: "parse any_uuid GetRecommendedCoursesSchema
      (JObj [(''region'', JStr ''ireland''), (''budget_tier'', JStr ''budget'')]) =
    Inr [(''region'', JStr ''ireland''), (''budget_tier'', JStr ''budget''),
         (''limit'', JNum 10)]"
    by (simp_all add: selection_budget_ireland project_course clock_145_def)
  from recommended_courses_selection[OF h(1) ireland_no_pattern h(2) t(2) h(3) _ m,
      of demo_tables clock_145 any_uuid]
  have 2: "data (fst (getRecommendedCourses env_no_cache (table_store demo_tables) clock_145
        ?std Unreachable)) =
     JArr [JObj (course ''Ballybunion'' ''Southwest Ireland'' 48 15000)]"
    by (simp add: selection_standard_ireland project_course)
  from g ireland_no_pattern m 1 2 3 show ?thesis by simp
qed

lemma luxury_wildcard_query:
  "getRecommendedCourses_query
     [(''region'', JStr ''s_o''), (''budget_tier'', JStr ''luxury''), (''limit'', JNum 10)] =
   Inr \<lparr>table = ''golf_courses'', columns = recommended_columns,
        filters = [Ilike ''region'' ''%s_o%'', Gte ''green_fee_standard_cents'' (JNum 35000)],
        order_by = [(''rating'', False)], limit_n = Some (JNum 10), single_row = False\<rparr>"
  by (simp add: getRecommendedCourses_query_def priceRanges_def getp_def
      has_key_def Let_def from_select_def ilike_def order_def limit_def lte_def gte_def
      js_or_def recommended_columns_def)

lemma luxury_wildcard_rows:
  "select_rows
     \<lparr>table = ''golf_courses'', columns = recommended_columns,
      filters = [Ilike ''region'' ''%s_o%'', Gte ''green_fee_standard_cents'' (JNum 35000)],
      order_by = [(''rating'', False)], limit_n = Some (JNum 10), single_row = False\<rparr>
     (demo_tables ''golf_courses'') = [course ''Old Course'' ''Scotland'' 49 35000]"
  by (simp add: select_rows_def apply_limit_def apply_order_def demo_tables_def course_def
      pg_ilike_def lower_char_def getp_def order_key_def project_def recommended_columns_def
      has_key_def)

text \<open>
  Claim C5 as stated fails: with the requested limit 0 the lookup returns two courses,
  not none; and the region \<open>s_o\<close> selects a course in \<open>Scotland\<close>, of which it is no
  substring, because \<open>_\<close> is a wildcard of the pattern sent to the store.
\<close>

theorem recommended_limit_zero_and_wildcard:
  "data (fst (getRecommendedCourses env_no_cache (table_store demo_tables) clock_145
        (budget_ireland 0) Unreachable)) =
     JArr [JObj (course ''Ballybunion'' ''Southwest Ireland'' 48 15000),
           JObj (course ''Tralee'' ''Southwest Ireland'' 46 9000)] \<and>
   data (fst (getRecommendedCourses env_no_cache (table_store demo_tables) clock_145
        [(''region'', JStr ''s_o''), (''budget_tier'', JStr ''luxury''), (''limit'', JNum 10)]
        Unreachable)) =
     JArr [JObj (course ''Old Course'' ''Scotland'' 49 35000)] \<and>
   \<not> sublist (map lower_char ''s_o'') (map lower_char ''Scotland'')"
proof -
  let ?lux = "[(''region'', JStr ''s_o''), (''budget_tier'', JStr ''luxury''),
      (''limit'', JNum 10)]"
  let ?q = "\<lparr>table = ''golf_courses'', columns = recommended_columns,
      filters = [Ilike ''region'' ''%s_o%'', Gte ''green_fee_standard_cents'' (JNum 35000)],
      order_by = [(''rating'', False)], limit_n = Some (JNum 10), single_row = False\<rparr>"
  note m = not_truthy_unavailable[OF cache_unavailable_no_cache, of Unreachable]
  have g: "getp (budget_ireland 0) ''region'' = JStr ''ireland''"
    "getp (budget_ireland 0) ''budget_tier'' = JStr ''budget''"
    "getp (budget_ireland 0) ''limit'' = JNum 0"
    by (simp_all add: budget_ireland_def getp_def)
  have t: "''budget'' \<in> {''budget'', ''standard'', ''luxury''}" by simp
  from recommended_result[OF g(1) ireland_no_pattern g(2) t g(3) m, of demo_tables clock_145]
  have 1: "data (fst (getRecommendedCourses env_no_cache (table_store demo_tables) clock_145
        (budget_ireland 0) Unreachable)) =
     JArr [JObj (course ''Ballybunion'' ''Southwest Ireland'' 48 15000),
           JObj (course ''Tralee'' ''Southwest Ireland'' 46 9000)]"
    by (simp add: selection_budget_ireland project_course)
  have db: "table_store demo_tables ?q =
      Inr \<lparr>resp_data = JArr [JObj (course ''Old Course'' ''Scotland'' 49 35000)],
           resp_error = None\<rparr>"
    using table_store_rows[of ?q demo_tables] luxury_wildcard_rows by simp
  from getRecommendedCourses_store_ok[where db = "table_store demo_tables" and now = clock_145,
      OF m luxury_wildcard_query db]
  have 2: "data (fst (getRecommendedCourses env_no_cache (table_store demo_tables) clock_145
        ?lux Unreachable)) = JArr [JObj (course ''Old Course'' ''Scotland'' 49 35000)]"
    by (simp add: js_or_def)
  have 3: "\<not> sublist (map lower_char ''s_o'') (map lower_char ''Scotland'')"
    by (simp add: lower_char_def sublist_code)
  from 1 2 3 show ?thesis by simp
qed











end
